theory Spec2Isabelle
  imports Main
begin

section \<open>The window system, the loader and the log, as seen from the program\<close>

text \<open>
  The file \<^verbatim>\<open>emu_window_sdl2_gl.cpp\<close> computes almost nothing by itself: what it does is
  the sequence of calls it makes to SDL, to glad, to the renderer and to the log, and the few
  fields it keeps. The model therefore threads a trace of calls (an \<open>event list\<close>, oldest
  call first) through every function. What an external call returns is not decided by this
  program; it is read from an \<open>environment\<close> of answers, each a function of the calls made
  so far (the call being answered is the last one of that list).

  A pointer is an \<open>option\<close>: \<open>None\<close> is \<^verbatim>\<open>nullptr\<close>.
\<close>

datatype SDL_Window = SDL_Window nat
datatype GL_Context = GL_Context nat

type_synonym SDL_Window_ptr = "SDL_Window option"
type_synonym SDL_GLContext = "GL_Context option"

datatype SDL_WindowFlags =
    SDL_WINDOW_OPENGL
  | SDL_WINDOW_HIDDEN
  | SDL_WINDOW_RESIZABLE
  | SDL_WINDOW_ALLOW_HIGHDPI

datatype SDL_GLattr =
    SDL_GL_CONTEXT_MAJOR_VERSION
  | SDL_GL_CONTEXT_MINOR_VERSION
  | SDL_GL_CONTEXT_PROFILE_MASK
  | SDL_GL_DOUBLEBUFFER
  | SDL_GL_RED_SIZE
  | SDL_GL_GREEN_SIZE
  | SDL_GL_BLUE_SIZE
  | SDL_GL_ALPHA_SIZE
  | SDL_GL_SHARE_WITH_CURRENT_CONTEXT
  | SDL_GL_CONTEXT_FLAGS

text \<open>The values of the SDL constants the file passes on, from SDL's headers.\<close>

definition SDL_WINDOWPOS_UNDEFINED :: int where
  "SDL_WINDOWPOS_UNDEFINED = 536805376"

definition SDL_GL_CONTEXT_PROFILE_COMPATIBILITY :: int where
  "SDL_GL_CONTEXT_PROFILE_COMPATIBILITY = 2"

definition SDL_GL_CONTEXT_DEBUG_FLAG :: int where
  "SDL_GL_CONTEXT_DEBUG_FLAG = 1"

datatype log_level = Critical | Info
datatype log_class = Frontend

text \<open>
  One constructor per call the file makes. \<open>LOG\<close> keeps the format string and its arguments
  as the \<^verbatim>\<open>LOG_CRITICAL\<close> and \<^verbatim>\<open>LOG_INFO\<close> macros receive them. \<open>Fullscreen\<close>,
  \<open>OnResize\<close>, \<open>OnMinimalClientAreaChangeRequest\<close> and \<open>LogSettings\<close> are calls into code
  outside this file and stay opaque.
\<close>

datatype event =
    SDL_GL_SetAttribute SDL_GLattr int
  | SDL_GL_SetSwapInterval int
  | SDL_CreateWindow "string option" int int int int "SDL_WindowFlags set"
  | SDL_GL_CreateContext SDL_Window_ptr
  | SDL_GL_MakeCurrent SDL_Window_ptr SDL_GLContext
  | SDL_GL_DeleteContext SDL_GLContext
  | SDL_DestroyWindow SDL_Window_ptr
  | SDL_GL_SwapWindow SDL_Window_ptr
  | SDL_PumpEvents
  | gladLoadGLLoader
  | TryPresent int
  | LOG log_level log_class string "string list"
  | Fullscreen
  | OnResize
  | OnMinimalClientAreaChangeRequest
  | LogSettings
  | SDL_GetError

text \<open>The nine \<^verbatim>\<open>GLAD_GL_*\<close> globals that \<^verbatim>\<open>gladLoadGLLoader\<close> fills in (C ints).\<close>

record glad =
  GLAD_GL_ARB_buffer_storage :: int
  GLAD_GL_ARB_direct_state_access :: int
  GLAD_GL_ARB_vertex_type_10f_11f_11f_rev :: int
  GLAD_GL_ARB_texture_mirror_clamp_to_edge :: int
  GLAD_GL_ARB_multi_bind :: int
  GLAD_GL_ARB_clip_control :: int
  GLAD_GL_EXT_texture_compression_s3tc :: int
  GLAD_GL_ARB_texture_compression_rgtc :: int
  GLAD_GL_ARB_depth_buffer_float :: int

text \<open>
  The answers of the outside world. \<open>IsOpen_returns k\<close> is what the \<open>k\<close>-th evaluation of
  \<^verbatim>\<open>IsOpen()\<close> inside one \<^verbatim>\<open>Present()\<close> call reads (the flag is written by the event
  handling, not by this file). The remaining fields are the settings, build strings and
  layout constants the file reads from other headers.
\<close>

record environment =
  SDL_CreateWindow_returns :: "event list \<Rightarrow> SDL_Window_ptr"
  SDL_GL_CreateContext_returns :: "event list \<Rightarrow> SDL_GLContext"
  SDL_GL_MakeCurrent_returns :: "event list \<Rightarrow> int"
  SDL_GetError_returns :: "event list \<Rightarrow> string"
  gladLoadGLLoader_returns :: "event list \<Rightarrow> int \<times> glad"
  IsOpen_returns :: "nat \<Rightarrow> bool"
  renderer_debug :: bool
  use_vsync :: bool
  g_build_fullname :: string
  g_scm_branch :: string
  g_scm_desc :: string
  ScreenUndocked_Width :: int
  ScreenUndocked_Height :: int

section \<open>SDLGLContext\<close>

record SDLGLContext =
  window :: SDL_Window_ptr
  gl_context :: SDL_GLContext
  is_current :: bool

text \<open>The constructor: a hidden window of its own, then a context on that window.\<close>

definition SDLGLContext_ctor :: "environment \<Rightarrow> event list \<Rightarrow> SDLGLContext \<times> event list" where
  "SDLGLContext_ctor env tr =
     (let tr1 = tr @ [SDL_CreateWindow None SDL_WINDOWPOS_UNDEFINED SDL_WINDOWPOS_UNDEFINED 0 0
                        {SDL_WINDOW_HIDDEN, SDL_WINDOW_OPENGL}];
          w = SDL_CreateWindow_returns env tr1;
          tr2 = tr1 @ [SDL_GL_CreateContext w];
          c = SDL_GL_CreateContext_returns env tr2
      in (\<lparr>window = w, gl_context = c, is_current = False\<rparr>, tr2))"

definition MakeCurrent :: "environment \<Rightarrow> SDLGLContext \<times> event list \<Rightarrow> SDLGLContext \<times> event list" where
  "MakeCurrent env s =
     (case s of (this, tr) \<Rightarrow>
        if is_current this then (this, tr)
        else (let tr1 = tr @ [SDL_GL_MakeCurrent (window this) (gl_context this)]
              in (this\<lparr>is_current := (SDL_GL_MakeCurrent_returns env tr1 = 0)\<rparr>, tr1)))"

definition DoneCurrent :: "environment \<Rightarrow> SDLGLContext \<times> event list \<Rightarrow> SDLGLContext \<times> event list" where
  "DoneCurrent env s =
     (case s of (this, tr) \<Rightarrow>
        if \<not> is_current this then (this, tr)
        else (let tr1 = tr @ [SDL_GL_MakeCurrent (window this) None]
              in (this\<lparr>is_current := False\<rparr>, tr1)))"

text \<open>The destructor; the object is gone afterwards, so only the trace is returned.\<close>

definition SDLGLContext_dtor :: "environment \<Rightarrow> SDLGLContext \<times> event list \<Rightarrow> event list" where
  "SDLGLContext_dtor env s =
     (case DoneCurrent env s of (this, tr1) \<Rightarrow>
        tr1 @ [SDL_GL_DeleteContext (gl_context this)] @ [SDL_DestroyWindow (window this)])"

text \<open>A caller's sequence of calls on one context from one thread.\<close>

datatype context_call = Call_MakeCurrent | Call_DoneCurrent

fun call_context :: "environment \<Rightarrow> context_call \<Rightarrow> SDLGLContext \<times> event list \<Rightarrow> SDLGLContext \<times> event list" where
  "call_context env Call_MakeCurrent s = MakeCurrent env s"
| "call_context env Call_DoneCurrent s = DoneCurrent env s"

fun call_sequence :: "environment \<Rightarrow> context_call list \<Rightarrow> SDLGLContext \<times> event list \<Rightarrow> SDLGLContext \<times> event list" where
  "call_sequence env [] s = s"
| "call_sequence env (c # cs) s = call_sequence env cs (call_context env c s)"

section \<open>Strings\<close>

text \<open>
  \<^verbatim>\<open>fmt::format\<close> belongs to the fmt library, not to this repository. The model covers
  what the file's format strings use: a \<^verbatim>\<open>{}\<close> field takes the next argument and copies a
  string argument unchanged (the argument's own braces are not read again), \<^verbatim>\<open>{{\<close> and
  \<^verbatim>\<open>}}\<close> stand for one brace, every other character is copied. \<open>None\<close> is fmt's
  \<^verbatim>\<open>format_error\<close> (a field with no argument left, a lone brace) and also any other
  form of field, which this model does not cover.
\<close>

fun fmt_format :: "string \<Rightarrow> string list \<Rightarrow> string option" where
  "fmt_format [] args = Some []"
| "fmt_format [c] args = (if c = CHR ''{'' \<or> c = CHR ''}'' then None else Some [c])"
| "fmt_format (c # d # fs) args =
     (if c = CHR ''{'' \<and> d = CHR ''}'' then
        (case args of [] \<Rightarrow> None | a # as \<Rightarrow> map_option ((@) a) (fmt_format fs as))
      else if c = CHR ''{'' \<and> d = CHR ''{'' then map_option ((#) c) (fmt_format fs args)
      else if c = CHR ''}'' \<and> d = CHR ''}'' then map_option ((#) c) (fmt_format fs args)
      else if c = CHR ''{'' \<or> c = CHR ''}'' then None
      else map_option ((#) c) (fmt_format (d # fs) args))"

text \<open>\<^verbatim>\<open>std::string::c_str\<close> read as a C string: the characters before the first NUL.\<close>

definition c_str :: "string \<Rightarrow> string" where
  "c_str s = takeWhile (\<lambda>c. c \<noteq> CHR 0x00) s"

section \<open>EmuWindow\_SDL2\_GL\<close>

text \<open>
  \<open>core_context\<close> is a \<^verbatim>\<open>std::unique_ptr\<close>: \<open>None\<close> is the empty pointer, \<open>Some c\<close> owns
  the context object \<open>c\<close>.
\<close>

record EmuWindow_SDL2_GL =
  render_window :: SDL_Window_ptr
  dummy_window :: SDL_Window_ptr
  window_context :: SDL_GLContext
  core_context :: "SDLGLContext option"

text \<open>How a constructor can end without an object: \<^verbatim>\<open>exit(status)\<close>, or an exception of fmt.\<close>

datatype ctor_failure = Exit int | Format_error

subsection \<open>SupportsRequiredGLExtensions\<close>

text \<open>One \<^verbatim>\<open>if (!flag) unsupported_ext.push_back(name);\<close> statement.\<close>

definition push_back_unless :: "int \<Rightarrow> string \<Rightarrow> string list \<Rightarrow> string list" where
  "push_back_unless flag name unsupported_ext =
     (if flag = 0 then unsupported_ext @ [name] else unsupported_ext)"

definition SupportsRequiredGLExtensions :: "glad \<Rightarrow> event list \<Rightarrow> bool \<times> event list" where
  "SupportsRequiredGLExtensions g tr =
     (let unsupported_ext = [];
          unsupported_ext = push_back_unless (GLAD_GL_ARB_buffer_storage g)
                              ''ARB_buffer_storage'' unsupported_ext;
          unsupported_ext = push_back_unless (GLAD_GL_ARB_direct_state_access g)
                              ''ARB_direct_state_access'' unsupported_ext;
          unsupported_ext = push_back_unless (GLAD_GL_ARB_vertex_type_10f_11f_11f_rev g)
                              ''ARB_vertex_type_10f_11f_11f_rev'' unsupported_ext;
          unsupported_ext = push_back_unless (GLAD_GL_ARB_texture_mirror_clamp_to_edge g)
                              ''ARB_texture_mirror_clamp_to_edge'' unsupported_ext;
          unsupported_ext = push_back_unless (GLAD_GL_ARB_multi_bind g)
                              ''ARB_multi_bind'' unsupported_ext;
          unsupported_ext = push_back_unless (GLAD_GL_ARB_clip_control g)
                              ''ARB_clip_control'' unsupported_ext;
          unsupported_ext = push_back_unless (GLAD_GL_EXT_texture_compression_s3tc g)
                              ''EXT_texture_compression_s3tc'' unsupported_ext;
          unsupported_ext = push_back_unless (GLAD_GL_ARB_texture_compression_rgtc g)
                              ''ARB_texture_compression_rgtc'' unsupported_ext;
          unsupported_ext = push_back_unless (GLAD_GL_ARB_depth_buffer_float g)
                              ''ARB_depth_buffer_float'' unsupported_ext;
          tr1 = foldl (\<lambda>t extension.
                         t @ [LOG Critical Frontend ''Unsupported GL extension: {}'' [extension]])
                      tr unsupported_ext
      in (unsupported_ext = [], tr1))"

subsection \<open>CreateSharedContext\<close>

text \<open>\<^verbatim>\<open>std::make_unique\<close> never yields an empty pointer.\<close>

definition CreateSharedContext ::
  "environment \<Rightarrow> EmuWindow_SDL2_GL \<Rightarrow> event list \<Rightarrow> SDLGLContext option \<times> event list" where
  "CreateSharedContext env this tr =
     (case SDLGLContext_ctor env tr of (c, tr1) \<Rightarrow> (Some c, tr1))"

subsection \<open>The constructor\<close>

text \<open>
  The base-class constructor \<^verbatim>\<open>EmuWindow_SDL2{system, fullscreen}\<close> has run before the
  body modelled here; it is not part of this file.
\<close>

definition EmuWindow_SDL2_GL_ctor ::
  "environment \<Rightarrow> bool \<Rightarrow> event list \<Rightarrow> (ctor_failure + EmuWindow_SDL2_GL) \<times> event list" where
  "EmuWindow_SDL2_GL_ctor env fullscreen tr =
     (let tr1 = tr @ [SDL_GL_SetAttribute SDL_GL_CONTEXT_MAJOR_VERSION 4,
                      SDL_GL_SetAttribute SDL_GL_CONTEXT_MINOR_VERSION 3,
                      SDL_GL_SetAttribute SDL_GL_CONTEXT_PROFILE_MASK
                        SDL_GL_CONTEXT_PROFILE_COMPATIBILITY,
                      SDL_GL_SetAttribute SDL_GL_DOUBLEBUFFER 1,
                      SDL_GL_SetAttribute SDL_GL_RED_SIZE 8,
                      SDL_GL_SetAttribute SDL_GL_GREEN_SIZE 8,
                      SDL_GL_SetAttribute SDL_GL_BLUE_SIZE 8,
                      SDL_GL_SetAttribute SDL_GL_ALPHA_SIZE 0,
                      SDL_GL_SetAttribute SDL_GL_SHARE_WITH_CURRENT_CONTEXT 1];
          tr2 = (if renderer_debug env
                 then tr1 @ [SDL_GL_SetAttribute SDL_GL_CONTEXT_FLAGS SDL_GL_CONTEXT_DEBUG_FLAG]
                 else tr1);
          tr3 = tr2 @ [SDL_GL_SetSwapInterval 0]
      in case fmt_format ''yuzu {} | {}-{}''
                [g_build_fullname env, g_scm_branch env, g_scm_desc env] of
           None \<Rightarrow> (Inl Format_error, tr3)
         | Some window_title \<Rightarrow>
     (let tr4 = tr3 @ [SDL_CreateWindow (Some (c_str window_title))
                         SDL_WINDOWPOS_UNDEFINED SDL_WINDOWPOS_UNDEFINED
                         (ScreenUndocked_Width env) (ScreenUndocked_Height env)
                         {SDL_WINDOW_OPENGL, SDL_WINDOW_RESIZABLE, SDL_WINDOW_ALLOW_HIGHDPI}];
          render_window' = SDL_CreateWindow_returns env tr4
      in if render_window' = None then
           (let tr5 = tr4 @ [SDL_GetError]
            in (Inl (Exit 1),
                tr5 @ [LOG Critical Frontend ''Failed to create SDL2 window! {}''
                         [SDL_GetError_returns env tr5]]))
         else
     (let tr5 = tr4 @ [SDL_CreateWindow None SDL_WINDOWPOS_UNDEFINED SDL_WINDOWPOS_UNDEFINED 0 0
                         {SDL_WINDOW_HIDDEN, SDL_WINDOW_OPENGL}];
          dummy_window' = SDL_CreateWindow_returns env tr5;
          tr6 = (if fullscreen then tr5 @ [Fullscreen] else tr5);
          tr7 = tr6 @ [SDL_GL_CreateContext render_window'];
          window_context' = SDL_GL_CreateContext_returns env tr7;
          this = \<lparr>render_window = render_window', dummy_window = dummy_window',
                  window_context = window_context', core_context = None\<rparr>
      in case CreateSharedContext env this tr7 of (core_context', tr8) \<Rightarrow>
         if window_context' = None then
           (let tr9 = tr8 @ [SDL_GetError]
            in (Inl (Exit 1),
                tr9 @ [LOG Critical Frontend ''Failed to create SDL2 GL context: {}''
                         [SDL_GetError_returns env tr9]]))
         else if core_context' = None then
           (let tr9 = tr8 @ [SDL_GetError]
            in (Inl (Exit 1),
                tr9 @ [LOG Critical Frontend ''Failed to create shared SDL2 GL context: {}''
                         [SDL_GetError_returns env tr9]]))
         else
     (let tr9 = tr8 @ [gladLoadGLLoader]
      in case gladLoadGLLoader_returns env tr9 of (loaded, g) \<Rightarrow>
         if loaded = 0 then
           (let tr10 = tr9 @ [SDL_GetError]
            in (Inl (Exit 1),
                tr10 @ [LOG Critical Frontend ''Failed to initialize GL functions! {}''
                          [SDL_GetError_returns env tr10]]))
         else
     (case SupportsRequiredGLExtensions g tr9 of (supported, tr10) \<Rightarrow>
         if \<not> supported then
           (Inl (Exit 1),
            tr10 @ [LOG Critical Frontend
                      ''GPU does not support all required OpenGL extensions! Exiting...'' []])
         else
           (Inr (this\<lparr>core_context := core_context'\<rparr>),
            tr10 @ [OnResize, OnMinimalClientAreaChangeRequest, SDL_PumpEvents,
                    LOG Info Frontend ''yuzu Version: {} | {}-{}''
                      [g_build_fullname env, g_scm_branch env, g_scm_desc env],
                    LogSettings]))))))"

subsection \<open>The destructor\<close>

text \<open>
  The body of \<^verbatim>\<open>~EmuWindow_SDL2_GL\<close>. \<^verbatim>\<open>core_context.reset()\<close> runs the destructor of
  the owned object, if there is one, and leaves the pointer empty. The fields are returned as
  the body leaves them; the base-class destructor, which runs afterwards, is not part of this
  file.
\<close>

definition EmuWindow_SDL2_GL_dtor ::
  "environment \<Rightarrow> EmuWindow_SDL2_GL \<times> event list \<Rightarrow> EmuWindow_SDL2_GL \<times> event list" where
  "EmuWindow_SDL2_GL_dtor env s =
     (case s of (this, tr) \<Rightarrow>
        (let tr1 = (case core_context this of
                      None \<Rightarrow> tr
                    | Some c \<Rightarrow> SDLGLContext_dtor env (c, tr));
             this1 = this\<lparr>core_context := None\<rparr>
         in (this1, tr1 @ [SDL_GL_DeleteContext (window_context this1)])))"

subsection \<open>Present\<close>

text \<open>
  The \<^verbatim>\<open>while (IsOpen())\<close> loop runs for as long as the flag reads true, possibly for ever:
  \<open>None\<close> is the loop that never ends. \<open>k\<close> counts the evaluations of \<^verbatim>\<open>IsOpen()\<close>.
  What \<^verbatim>\<open>TryPresent\<close> returns is dropped by the source and so has no place in the model.
\<close>

partial_function (option) Present_loop ::
  "environment \<Rightarrow> EmuWindow_SDL2_GL \<Rightarrow> nat \<Rightarrow> event list \<Rightarrow> event list option" where
  "Present_loop env this k tr =
     (if IsOpen_returns env k
      then Present_loop env this (Suc k)
             (tr @ [TryPresent 100] @ [SDL_GL_SwapWindow (render_window this)])
      else Some tr)"

definition Present :: "environment \<Rightarrow> EmuWindow_SDL2_GL \<Rightarrow> event list \<Rightarrow> event list option" where
  "Present env this tr =
     (let tr1 = tr @ [SDL_GL_MakeCurrent (render_window this) (window_context this)];
          tr2 = tr1 @ [SDL_GL_SetSwapInterval (if use_vsync env then 1 else 0)]
      in case Present_loop env this 0 tr2 of
           None \<Rightarrow> None
         | Some tr3 \<Rightarrow> Some (tr3 @ [SDL_GL_MakeCurrent (render_window this) None]))"

text \<open>
  The same function watched for a bounded time, so that the calls of a run that never ends
  can be read off: \<open>fuel\<close> is the number of evaluations of \<^verbatim>\<open>IsOpen()\<close> that are waited
  for. The result is the trace so far and whether the function has returned.
\<close>

fun Present_loop_within ::
  "nat \<Rightarrow> environment \<Rightarrow> EmuWindow_SDL2_GL \<Rightarrow> nat \<Rightarrow> event list \<Rightarrow> event list \<times> bool" where
  "Present_loop_within 0 env this k tr = (tr, False)"
| "Present_loop_within (Suc fuel) env this k tr =
     (if IsOpen_returns env k
      then Present_loop_within fuel env this (Suc k)
             (tr @ [TryPresent 100] @ [SDL_GL_SwapWindow (render_window this)])
      else (tr, True))"

definition Present_within ::
  "nat \<Rightarrow> environment \<Rightarrow> EmuWindow_SDL2_GL \<Rightarrow> event list \<Rightarrow> event list \<times> bool" where
  "Present_within fuel env this tr =
     (let tr1 = tr @ [SDL_GL_MakeCurrent (render_window this) (window_context this)];
          tr2 = tr1 @ [SDL_GL_SetSwapInterval (if use_vsync env then 1 else 0)]
      in case Present_loop_within fuel env this 0 tr2 of
           (tr3, False) \<Rightarrow> (tr3, False)
         | (tr3, True) \<Rightarrow> (tr3 @ [SDL_GL_MakeCurrent (render_window this) None], True))"

section \<open>The binding state as the specification describes it\<close>

text \<open>
  The specification's two-state machine (current, not current), written from its words:
  \<^verbatim>\<open>MakeCurrent\<close> leads to current and \<^verbatim>\<open>DoneCurrent\<close> to not current, from either
  state. It is compared with the code below.
\<close>

fun binding_machine :: "bool \<Rightarrow> context_call \<Rightarrow> bool" where
  "binding_machine b Call_MakeCurrent = True"
| "binding_machine b Call_DoneCurrent = False"

text \<open>
  The same machine with the window system's answer as an input: \<^verbatim>\<open>MakeCurrent\<close> on a
  context that is not current makes one bind call and leads to current exactly when the
  answer is 0; \<^verbatim>\<open>DoneCurrent\<close> on a current context makes one release call and leads to
  not current; the two other cases change nothing. The state is the binding state together
  with the calls made so far, on the window \<open>w\<close> and the context \<open>c\<close>.
\<close>

fun answered_machine ::
  "environment \<Rightarrow> SDL_Window_ptr \<Rightarrow> SDL_GLContext \<Rightarrow> bool \<times> event list \<Rightarrow> context_call
     \<Rightarrow> bool \<times> event list" where
  "answered_machine env w c (current, tr) Call_MakeCurrent =
     (if current then (current, tr)
      else (SDL_GL_MakeCurrent_returns env (tr @ [SDL_GL_MakeCurrent w c]) = 0,
            tr @ [SDL_GL_MakeCurrent w c]))"
| "answered_machine env w c (current, tr) Call_DoneCurrent =
     (if current then (False, tr @ [SDL_GL_MakeCurrent w None]) else (current, tr))"

section \<open>The required extensions as the specification lists them\<close>

text \<open>
  The nine required extensions by name, each with the flag the loader reports for it, and the
  names of those a driver lacks (a flag of zero). Written from the specification's list; it is
  compared with \<open>SupportsRequiredGLExtensions\<close> below.
\<close>

definition required_extensions :: "glad \<Rightarrow> (string \<times> int) list" where
  "required_extensions g =
     [(''ARB_buffer_storage'', GLAD_GL_ARB_buffer_storage g),
      (''ARB_direct_state_access'', GLAD_GL_ARB_direct_state_access g),
      (''ARB_vertex_type_10f_11f_11f_rev'', GLAD_GL_ARB_vertex_type_10f_11f_11f_rev g),
      (''ARB_texture_mirror_clamp_to_edge'', GLAD_GL_ARB_texture_mirror_clamp_to_edge g),
      (''ARB_multi_bind'', GLAD_GL_ARB_multi_bind g),
      (''ARB_clip_control'', GLAD_GL_ARB_clip_control g),
      (''EXT_texture_compression_s3tc'', GLAD_GL_EXT_texture_compression_s3tc g),
      (''ARB_texture_compression_rgtc'', GLAD_GL_ARB_texture_compression_rgtc g),
      (''ARB_depth_buffer_float'', GLAD_GL_ARB_depth_buffer_float g)]"

definition is_missing :: "string \<times> int \<Rightarrow> bool" where
  "is_missing e = (snd e = 0)"

definition missing_extensions :: "glad \<Rightarrow> string list" where
  "missing_extensions g = map fst (filter is_missing (required_extensions g))"

definition unsupported_diagnostic :: "string \<Rightarrow> event" where
  "unsupported_diagnostic name = LOG Critical Frontend ''Unsupported GL extension: {}'' [name]"

section \<open>The constructor's trace, step by step\<close>

text \<open>
  The title in the specification's format \<^verbatim>\<open><product> <version> | <branch>-<description>\<close>.
  The code has no field for the product: it is the literal \<^verbatim>\<open>yuzu\<close> of the format string.
\<close>

definition window_title :: "environment \<Rightarrow> string" where
  "window_title env =
     ''yuzu'' @ '' '' @ g_build_fullname env @ '' | '' @ g_scm_branch env @ ''-'' @ g_scm_desc env"

text \<open>
  The calls of the attribute configuration, with the swap interval the code sets after it.
\<close>

definition gl_attribute_calls :: "environment \<Rightarrow> event list" where
  "gl_attribute_calls env =
     [SDL_GL_SetAttribute SDL_GL_CONTEXT_MAJOR_VERSION 4,
      SDL_GL_SetAttribute SDL_GL_CONTEXT_MINOR_VERSION 3,
      SDL_GL_SetAttribute SDL_GL_CONTEXT_PROFILE_MASK SDL_GL_CONTEXT_PROFILE_COMPATIBILITY,
      SDL_GL_SetAttribute SDL_GL_DOUBLEBUFFER 1,
      SDL_GL_SetAttribute SDL_GL_RED_SIZE 8,
      SDL_GL_SetAttribute SDL_GL_GREEN_SIZE 8,
      SDL_GL_SetAttribute SDL_GL_BLUE_SIZE 8,
      SDL_GL_SetAttribute SDL_GL_ALPHA_SIZE 0,
      SDL_GL_SetAttribute SDL_GL_SHARE_WITH_CURRENT_CONTEXT 1]
     @ (if renderer_debug env
        then [SDL_GL_SetAttribute SDL_GL_CONTEXT_FLAGS SDL_GL_CONTEXT_DEBUG_FLAG] else [])
     @ [SDL_GL_SetSwapInterval 0]"

text \<open>
  The call that creates the visible window, and the call that creates a hidden window of size
  zero (made once by the constructor for \<open>dummy_window\<close> and once by every
  \<open>SDLGLContext\<close> for itself).
\<close>

definition render_window_call :: "environment \<Rightarrow> event" where
  "render_window_call env =
     SDL_CreateWindow (Some (c_str (window_title env)))
       SDL_WINDOWPOS_UNDEFINED SDL_WINDOWPOS_UNDEFINED
       (ScreenUndocked_Width env) (ScreenUndocked_Height env)
       {SDL_WINDOW_OPENGL, SDL_WINDOW_RESIZABLE, SDL_WINDOW_ALLOW_HIGHDPI}"

definition hidden_window_call :: event where
  "hidden_window_call =
     SDL_CreateWindow None SDL_WINDOWPOS_UNDEFINED SDL_WINDOWPOS_UNDEFINED 0 0
       {SDL_WINDOW_HIDDEN, SDL_WINDOW_OPENGL}"

text \<open>
  The trace up to and including each step of a construction that starts after \<open>tr\<close>, and
  what the window system answers there: the visible window, the auxiliary window, the
  fullscreen transition, the primary context, the shared context's own window and the shared
  context.
\<close>

definition upto_render_window :: "environment \<Rightarrow> event list \<Rightarrow> event list" where
  "upto_render_window env tr = tr @ gl_attribute_calls env @ [render_window_call env]"

definition upto_dummy_window :: "environment \<Rightarrow> event list \<Rightarrow> event list" where
  "upto_dummy_window env tr = upto_render_window env tr @ [hidden_window_call]"

definition upto_window_context :: "environment \<Rightarrow> bool \<Rightarrow> event list \<Rightarrow> event list" where
  "upto_window_context env fullscreen tr =
     upto_dummy_window env tr @ (if fullscreen then [Fullscreen] else [])
     @ [SDL_GL_CreateContext (SDL_CreateWindow_returns env (upto_render_window env tr))]"

definition upto_shared_window :: "environment \<Rightarrow> bool \<Rightarrow> event list \<Rightarrow> event list" where
  "upto_shared_window env fullscreen tr =
     upto_window_context env fullscreen tr @ [hidden_window_call]"

definition upto_core_context :: "environment \<Rightarrow> bool \<Rightarrow> event list \<Rightarrow> event list" where
  "upto_core_context env fullscreen tr =
     upto_shared_window env fullscreen tr
     @ [SDL_GL_CreateContext (SDL_CreateWindow_returns env (upto_shared_window env fullscreen tr))]"

definition upto_loader :: "environment \<Rightarrow> bool \<Rightarrow> event list \<Rightarrow> event list" where
  "upto_loader env fullscreen tr = upto_core_context env fullscreen tr @ [gladLoadGLLoader]"

text \<open>The object a construction that runs to its end returns.\<close>

definition constructed :: "environment \<Rightarrow> bool \<Rightarrow> event list \<Rightarrow> EmuWindow_SDL2_GL" where
  "constructed env fullscreen tr =
     \<lparr>render_window = SDL_CreateWindow_returns env (upto_render_window env tr),
      dummy_window = SDL_CreateWindow_returns env (upto_dummy_window env tr),
      window_context = SDL_GL_CreateContext_returns env (upto_window_context env fullscreen tr),
      core_context = Some
        \<lparr>window = SDL_CreateWindow_returns env (upto_shared_window env fullscreen tr),
         gl_context = SDL_GL_CreateContext_returns env (upto_core_context env fullscreen tr),
         is_current = False\<rparr>\<rparr>"

text \<open>A failed step's report: the error text is fetched, then logged.\<close>

definition fatal_report :: "environment \<Rightarrow> string \<Rightarrow> event list \<Rightarrow> event list" where
  "fatal_report env message tr =
     tr @ [SDL_GetError, LOG Critical Frontend message [SDL_GetError_returns env (tr @ [SDL_GetError])]]"

definition is_critical :: "event \<Rightarrow> bool" where
  "is_critical e = (case e of LOG level cls message args \<Rightarrow> level = Critical | _ \<Rightarrow> False)"

text \<open>
  The value SDL holds for an attribute after the calls of a trace: the one set last, if any.
\<close>

fun gl_attribute :: "event list \<Rightarrow> SDL_GLattr \<Rightarrow> int option" where
  "gl_attribute [] a = None"
| "gl_attribute (e # es) a =
     (case gl_attribute es a of
        Some v \<Rightarrow> Some v
      | None \<Rightarrow> (case e of SDL_GL_SetAttribute b v \<Rightarrow> if a = b then Some v else None
                 | _ \<Rightarrow> None))"

text \<open>The windows on which a trace creates a context, in order.\<close>

fun context_hosts :: "event list \<Rightarrow> SDL_Window_ptr list" where
  "context_hosts [] = []"
| "context_hosts (SDL_GL_CreateContext w # es) = w # context_hosts es"
| "context_hosts (e # es) = context_hosts es"

text \<open>The windows a trace destroys, in order.\<close>

fun windows_destroyed :: "event list \<Rightarrow> SDL_Window_ptr list" where
  "windows_destroyed [] = []"
| "windows_destroyed (SDL_DestroyWindow w # es) = w # windows_destroyed es"
| "windows_destroyed (e # es) = windows_destroyed es"

section \<open>Example environments\<close>

text \<open>
  A window system in which every call succeeds and every new window or context gets an
  address of its own (the position of the creating call in the trace), a driver with all nine
  extensions, a window that is closed at the third look, and the build strings of the
  specification's example.
\<close>

definition all_extensions :: glad where
  "all_extensions =
     \<lparr>GLAD_GL_ARB_buffer_storage = 1, GLAD_GL_ARB_direct_state_access = 1,
      GLAD_GL_ARB_vertex_type_10f_11f_11f_rev = 1, GLAD_GL_ARB_texture_mirror_clamp_to_edge = 1,
      GLAD_GL_ARB_multi_bind = 1, GLAD_GL_ARB_clip_control = 1,
      GLAD_GL_EXT_texture_compression_s3tc = 1, GLAD_GL_ARB_texture_compression_rgtc = 1,
      GLAD_GL_ARB_depth_buffer_float = 1\<rparr>"

definition example_env :: environment where
  "example_env =
     \<lparr>SDL_CreateWindow_returns = (\<lambda>tr. Some (SDL_Window (length tr))),
      SDL_GL_CreateContext_returns = (\<lambda>tr. Some (GL_Context (length tr))),
      SDL_GL_MakeCurrent_returns = (\<lambda>tr. 0),
      SDL_GetError_returns = (\<lambda>tr. []),
      gladLoadGLLoader_returns = (\<lambda>tr. (1, all_extensions)),
      IsOpen_returns = (\<lambda>k. k < 2),
      renderer_debug = False,
      use_vsync = True,
      g_build_fullname = ''1.0'',
      g_scm_branch = ''master'',
      g_scm_desc = ''abcd123'',
      ScreenUndocked_Width = 1280,
      ScreenUndocked_Height = 720\<rparr>"

text \<open>The same, but the window is never closed.\<close>

definition never_closed_env :: environment where
  "never_closed_env = example_env\<lparr>IsOpen_returns := (\<lambda>k. True)\<rparr>"

text \<open>The same, but the first bind of a context is refused.\<close>

definition first_bind_refused :: environment where
  "first_bind_refused =
     example_env\<lparr>SDL_GL_MakeCurrent_returns := (\<lambda>tr. if length tr \<le> 1 then - 1 else 0)\<rparr>"

definition example_context :: SDLGLContext where
  "example_context =
     \<lparr>window = Some (SDL_Window 7), gl_context = Some (GL_Context 8), is_current = False\<rparr>"

text \<open>A driver that lacks two of the nine extensions.\<close>

definition two_missing :: glad where
  "two_missing =
     all_extensions\<lparr>GLAD_GL_ARB_multi_bind := 0, GLAD_GL_ARB_depth_buffer_float := 0\<rparr>"

text \<open>The emulator window that a construction in \<open>example_env\<close> from the empty trace returns.\<close>

definition example_window :: EmuWindow_SDL2_GL where
  "example_window =
     \<lparr>render_window = Some (SDL_Window 11), dummy_window = Some (SDL_Window 12),
      window_context = Some (GL_Context 13),
      core_context = Some \<lparr>window = Some (SDL_Window 14), gl_context = Some (GL_Context 15),
                            is_current = False\<rparr>\<rparr>"

text \<open>
  Variations of \<open>example_env\<close>: no visible window can be created; the primary context
  cannot be created (the call at position 13 of the trace); the shared context cannot be
  created (the call at position 15); the loader fails; the driver lacks two extensions.
\<close>

definition no_window_env :: environment where
  "no_window_env = example_env\<lparr>SDL_CreateWindow_returns := (\<lambda>tr. None)\<rparr>"

definition no_primary_context_env :: environment where
  "no_primary_context_env =
     example_env\<lparr>SDL_GL_CreateContext_returns :=
       (\<lambda>tr. if length tr = 13 then None else Some (GL_Context (length tr)))\<rparr>"

definition no_shared_context_env :: environment where
  "no_shared_context_env =
     example_env\<lparr>SDL_GL_CreateContext_returns :=
       (\<lambda>tr. if length tr = 15 then None else Some (GL_Context (length tr)))\<rparr>"

definition no_loader_env :: environment where
  "no_loader_env = example_env\<lparr>gladLoadGLLoader_returns := (\<lambda>tr. (0, all_extensions))\<rparr>"

definition lacking_driver_env :: environment where
  "lacking_driver_env = example_env\<lparr>gladLoadGLLoader_returns := (\<lambda>tr. (1, two_missing))\<rparr>"

section \<open>Properties of SDLGLContext\<close>

lemma MakeCurrent_eq:
  "MakeCurrent env (this, tr)
     = (if is_current this then (this, tr)
        else (this\<lparr>is_current :=
                     (SDL_GL_MakeCurrent_returns env
                        (tr @ [SDL_GL_MakeCurrent (window this) (gl_context this)]) = 0)\<rparr>,
              tr @ [SDL_GL_MakeCurrent (window this) (gl_context this)]))"
  by (simp add: MakeCurrent_def Let_def)

lemma DoneCurrent_eq:
  "DoneCurrent env (this, tr)
     = (if is_current this
        then (this\<lparr>is_current := False\<rparr>, tr @ [SDL_GL_MakeCurrent (window this) None])
        else (this, tr))"
  by (simp add: DoneCurrent_def Let_def)

lemma call_context_machine:
  "call_context env c (this, tr)
     = (this\<lparr>is_current :=
                fst (answered_machine env (window this) (gl_context this) (is_current this, tr) c)\<rparr>,
        snd (answered_machine env (window this) (gl_context this) (is_current this, tr) c))"
  by (cases c) (simp_all add: MakeCurrent_eq DoneCurrent_eq)

lemma call_sequence_machine:
  "call_sequence env cs (this, tr)
     = (this\<lparr>is_current :=
                fst (foldl (answered_machine env (window this) (gl_context this))
                       (is_current this, tr) cs)\<rparr>,
        snd (foldl (answered_machine env (window this) (gl_context this))
               (is_current this, tr) cs))"
proof (induction cs arbitrary: this tr)
  case Nil
  show ?case by simp
next
  case (Cons c cs)
  let ?step = "answered_machine env (window this) (gl_context this) (is_current this, tr) c"
  have "call_sequence env (c # cs) (this, tr)
      = call_sequence env cs (this\<lparr>is_current := fst ?step\<rparr>, snd ?step)"
    by (simp add: call_context_machine)
  also have "\<dots> = (this\<lparr>is_current :=
                fst (foldl (answered_machine env (window this) (gl_context this)) ?step cs)\<rparr>,
        snd (foldl (answered_machine env (window this) (gl_context this)) ?step cs))"
    by (simp add: Cons.IH)
  finally show ?case by simp
qed

lemma answered_machine_accepted:
  assumes "\<forall>h. SDL_GL_MakeCurrent_returns env h = 0"
  shows "fst (answered_machine env w c (current, tr) call) = binding_machine current call"
  using assms by (cases call) simp_all

lemma answered_machine_fold_accepted:
  assumes "\<forall>h. SDL_GL_MakeCurrent_returns env h = 0"
  shows "fst (foldl (answered_machine env w c) (current, tr) cs) = foldl binding_machine current cs"
proof (induction cs arbitrary: current tr)
  case Nil
  show ?case by simp
next
  case (Cons call cs)
  obtain b t where step: "answered_machine env w c (current, tr) call = (b, t)"
    by (cases "answered_machine env w c (current, tr) call")
  with answered_machine_accepted [OF assms, of w c current tr call]
  have "b = binding_machine current call" by simp
  with step Cons.IH [of b t] show ?case by simp
qed

text \<open>
  Claim C1, as amended. For every sequence of \<^verbatim>\<open>MakeCurrent\<close>/\<^verbatim>\<open>DoneCurrent\<close> calls on
  one context from one thread, whatever the window system answers, the context moves between
  two states exactly as the two-state machine that takes the window system's answer as an
  input: \<^verbatim>\<open>MakeCurrent\<close> on a current context changes nothing and makes no call; on a
  context that is not current it makes one bind call and the context is current afterwards
  exactly when the bind was accepted; \<^verbatim>\<open>DoneCurrent\<close> on a current context makes one
  release call and the context is not current afterwards; on a context that is not current it
  changes nothing and makes no call. Nothing but \<open>is_current\<close> changes in the object, the
  calls made are exactly the machine's, and both operations are total functions to an object
  and a trace: there is no error value for them to return. When the window system accepts
  every bind, the binding state is that of the specification's machine.
\<close>

theorem context_binding_two_state:
  "MakeCurrent env (this, tr)
     = (if is_current this then (this, tr)
        else (this\<lparr>is_current :=
                     (SDL_GL_MakeCurrent_returns env
                        (tr @ [SDL_GL_MakeCurrent (window this) (gl_context this)]) = 0)\<rparr>,
              tr @ [SDL_GL_MakeCurrent (window this) (gl_context this)]))
   \<and> DoneCurrent env (this, tr)
     = (if is_current this
        then (this\<lparr>is_current := False\<rparr>, tr @ [SDL_GL_MakeCurrent (window this) None])
        else (this, tr))
   \<and> call_sequence env cs (this, tr)
     = (this\<lparr>is_current :=
                fst (foldl (answered_machine env (window this) (gl_context this))
                       (is_current this, tr) cs)\<rparr>,
        snd (foldl (answered_machine env (window this) (gl_context this))
               (is_current this, tr) cs))
   \<and> ((\<forall>h. SDL_GL_MakeCurrent_returns env h = 0) \<longrightarrow>
        is_current (fst (call_sequence env cs (this, tr)))
          = foldl binding_machine (is_current this) cs)"
proof -
  have accepted: "is_current (fst (call_sequence env cs (this, tr)))
          = foldl binding_machine (is_current this) cs"
    if "\<forall>h. SDL_GL_MakeCurrent_returns env h = 0"
    using answered_machine_fold_accepted [OF that]
    by (simp add: call_sequence_machine)
  show ?thesis
    using MakeCurrent_eq [of env this tr] DoneCurrent_eq [of env this tr]
      call_sequence_machine [of env cs this tr] accepted
    by blast
qed

theorem context_binding_two_state_witness:
  "call_sequence first_bind_refused
     [Call_MakeCurrent, Call_MakeCurrent, Call_MakeCurrent, Call_DoneCurrent, Call_DoneCurrent]
     (example_context, [])
   = (example_context,
      [SDL_GL_MakeCurrent (Some (SDL_Window 7)) (Some (GL_Context 8)),
       SDL_GL_MakeCurrent (Some (SDL_Window 7)) (Some (GL_Context 8)),
       SDL_GL_MakeCurrent (Some (SDL_Window 7)) None])
   \<and> call_sequence example_env
     [Call_MakeCurrent, Call_MakeCurrent, Call_DoneCurrent, Call_DoneCurrent, Call_MakeCurrent]
     (example_context, [])
   = (example_context\<lparr>is_current := True\<rparr>,
      [SDL_GL_MakeCurrent (Some (SDL_Window 7)) (Some (GL_Context 8)),
       SDL_GL_MakeCurrent (Some (SDL_Window 7)) None,
       SDL_GL_MakeCurrent (Some (SDL_Window 7)) (Some (GL_Context 8))])
   \<and> is_current (fst (call_sequence example_env
        [Call_MakeCurrent, Call_MakeCurrent, Call_DoneCurrent, Call_DoneCurrent, Call_MakeCurrent]
        (example_context, [])))
     = foldl binding_machine (is_current example_context)
         [Call_MakeCurrent, Call_MakeCurrent, Call_DoneCurrent, Call_DoneCurrent, Call_MakeCurrent]"
proof -
  have fields: "window example_context = Some (SDL_Window 7)"
    "gl_context example_context = Some (GL_Context 8)" "is_current example_context = False"
    by (simp_all add: example_context_def)
  have same: "example_context\<lparr>is_current := False\<rparr> = example_context"
    by (simp add: example_context_def)
  have refused: "SDL_GL_MakeCurrent_returns first_bind_refused t
      = (if length t \<le> 1 then - 1 else 0)" for t
    by (simp add: first_bind_refused_def)
  have ok: "\<forall>h. SDL_GL_MakeCurrent_returns example_env h = 0"
    by (simp add: example_env_def)
  note first = context_binding_two_state
    [of first_bind_refused example_context "[]"
        "[Call_MakeCurrent, Call_MakeCurrent, Call_MakeCurrent, Call_DoneCurrent, Call_DoneCurrent]",
     THEN conjunct2, THEN conjunct2, THEN conjunct1]
  note second = context_binding_two_state
    [of example_env example_context "[]"
        "[Call_MakeCurrent, Call_MakeCurrent, Call_DoneCurrent, Call_DoneCurrent, Call_MakeCurrent]",
     THEN conjunct2, THEN conjunct2]
  have a: "call_sequence first_bind_refused
     [Call_MakeCurrent, Call_MakeCurrent, Call_MakeCurrent, Call_DoneCurrent, Call_DoneCurrent]
     (example_context, [])
   = (example_context,
      [SDL_GL_MakeCurrent (Some (SDL_Window 7)) (Some (GL_Context 8)),
       SDL_GL_MakeCurrent (Some (SDL_Window 7)) (Some (GL_Context 8)),
       SDL_GL_MakeCurrent (Some (SDL_Window 7)) None])"
    unfolding first by (simp add: fields refused same)
  have b: "call_sequence example_env
     [Call_MakeCurrent, Call_MakeCurrent, Call_DoneCurrent, Call_DoneCurrent, Call_MakeCurrent]
     (example_context, [])
   = (example_context\<lparr>is_current := True\<rparr>,
      [SDL_GL_MakeCurrent (Some (SDL_Window 7)) (Some (GL_Context 8)),
       SDL_GL_MakeCurrent (Some (SDL_Window 7)) None,
       SDL_GL_MakeCurrent (Some (SDL_Window 7)) (Some (GL_Context 8))])"
    unfolding second [THEN conjunct1] by (simp add: fields ok)
  from second [THEN conjunct2, THEN mp, OF ok] a b show ?thesis
    by simp
qed

text \<open>
  The claim as written fails where the window system refuses a bind: after one
  \<^verbatim>\<open>MakeCurrent\<close> the specification's machine is in the state current, the context is not.
\<close>

theorem refused_bind_leaves_two_state_machine:
  "call_sequence first_bind_refused [Call_MakeCurrent] (example_context, [])
     = (example_context, [SDL_GL_MakeCurrent (Some (SDL_Window 7)) (Some (GL_Context 8))])
   \<and> is_current (fst (call_sequence first_bind_refused [Call_MakeCurrent] (example_context, [])))
     = False
   \<and> foldl binding_machine (is_current example_context) [Call_MakeCurrent] = True
   \<and> is_current (fst (call_sequence first_bind_refused [Call_MakeCurrent] (example_context, [])))
     \<noteq> foldl binding_machine (is_current example_context) [Call_MakeCurrent]"
  by (simp add: MakeCurrent_eq first_bind_refused_def example_context_def)

text \<open>
  Claim C9. When the window system refuses the bind inside \<^verbatim>\<open>MakeCurrent\<close> (a non-zero
  return), the call returns normally with the object unchanged, so still not current, and a
  second \<^verbatim>\<open>MakeCurrent\<close> issues the bind again and takes its state from that second
  answer.
\<close>

theorem MakeCurrent_refused_retries:
  "\<not> is_current this \<Longrightarrow>
   SDL_GL_MakeCurrent_returns env (tr @ [SDL_GL_MakeCurrent (window this) (gl_context this)]) \<noteq> 0 \<Longrightarrow>
     MakeCurrent env (this, tr)
       = (this, tr @ [SDL_GL_MakeCurrent (window this) (gl_context this)])
     \<and> MakeCurrent env (MakeCurrent env (this, tr))
       = (this\<lparr>is_current :=
                  (SDL_GL_MakeCurrent_returns env
                     (tr @ [SDL_GL_MakeCurrent (window this) (gl_context this),
                            SDL_GL_MakeCurrent (window this) (gl_context this)]) = 0)\<rparr>,
          tr @ [SDL_GL_MakeCurrent (window this) (gl_context this),
                SDL_GL_MakeCurrent (window this) (gl_context this)])"
  by (simp add: MakeCurrent_def Let_def)

theorem MakeCurrent_refused_retries_witness:
  "is_current example_context = False
   \<and> SDL_GL_MakeCurrent_returns first_bind_refused
       ([] @ [SDL_GL_MakeCurrent (window example_context) (gl_context example_context)]) = - 1
   \<and> MakeCurrent first_bind_refused (example_context, [])
       = (example_context, [SDL_GL_MakeCurrent (Some (SDL_Window 7)) (Some (GL_Context 8))])
   \<and> MakeCurrent first_bind_refused (MakeCurrent first_bind_refused (example_context, []))
       = (example_context\<lparr>is_current := True\<rparr>,
          [SDL_GL_MakeCurrent (Some (SDL_Window 7)) (Some (GL_Context 8)),
           SDL_GL_MakeCurrent (Some (SDL_Window 7)) (Some (GL_Context 8))])"
proof -
  have idle: "\<not> is_current example_context"
    by (simp add: example_context_def)
  have first: "SDL_GL_MakeCurrent_returns first_bind_refused
       ([] @ [SDL_GL_MakeCurrent (window example_context) (gl_context example_context)]) = - 1"
    by (simp add: first_bind_refused_def)
  then have refused: "SDL_GL_MakeCurrent_returns first_bind_refused
       ([] @ [SDL_GL_MakeCurrent (window example_context) (gl_context example_context)]) \<noteq> 0"
    by simp
  have second: "SDL_GL_MakeCurrent_returns first_bind_refused
       [SDL_GL_MakeCurrent (Some (SDL_Window 7)) (Some (GL_Context 8)),
        SDL_GL_MakeCurrent (Some (SDL_Window 7)) (Some (GL_Context 8))] = 0"
    by (simp add: first_bind_refused_def)
  have fields: "window example_context = Some (SDL_Window 7)"
    "gl_context example_context = Some (GL_Context 8)"
    by (simp_all add: example_context_def)
  note retry = MakeCurrent_refused_retries [OF idle refused]
  show ?thesis
    using idle first retry [THEN conjunct1] retry [THEN conjunct2] second
    unfolding fields by simp
qed

text \<open>
  Claim C7. The destructor of \<open>SDLGLContext\<close> first does what \<^verbatim>\<open>DoneCurrent\<close> does (a
  release of the binding if the context is current, nothing otherwise), then deletes the GL
  context, then destroys the hidden window the context was created on; nothing else.
\<close>

theorem SDLGLContext_dtor_order:
  "SDLGLContext_dtor env (this, tr)
     = snd (DoneCurrent env (this, tr))
       @ [SDL_GL_DeleteContext (gl_context this), SDL_DestroyWindow (window this)]
   \<and> SDLGLContext_dtor env (this, tr)
     = tr @ (if is_current this then [SDL_GL_MakeCurrent (window this) None] else [])
       @ [SDL_GL_DeleteContext (gl_context this), SDL_DestroyWindow (window this)]"
  by (simp add: SDLGLContext_dtor_def DoneCurrent_def Let_def)

theorem SDLGLContext_dtor_order_witness:
  "SDLGLContext_dtor example_env (example_context\<lparr>is_current := True\<rparr>, [])
     = [SDL_GL_MakeCurrent (Some (SDL_Window 7)) None,
        SDL_GL_DeleteContext (Some (GL_Context 8)),
        SDL_DestroyWindow (Some (SDL_Window 7))]"
  using SDLGLContext_dtor_order [of example_env "example_context\<lparr>is_current := True\<rparr>" "[]", THEN conjunct2]
  by (simp add: example_context_def)

section \<open>Properties of SupportsRequiredGLExtensions\<close>

lemma push_back_unless_append:
  "push_back_unless f n ys = ys @ map fst (filter is_missing [(n, f)])"
  by (simp add: push_back_unless_def is_missing_def)

lemma missing_Cons:
  "map fst (filter is_missing (e # e' # es))
     = map fst (filter is_missing [e]) @ map fst (filter is_missing (e' # es))"
  by simp

lemma log_each:
  "foldl (\<lambda>t extension. t @ [LOG Critical Frontend ''Unsupported GL extension: {}'' [extension]]) tr xs
     = tr @ map unsupported_diagnostic xs"
  by (induction xs arbitrary: tr) (simp_all add: unsupported_diagnostic_def)

lemma unsupported_ext_missing:
  "push_back_unless (GLAD_GL_ARB_depth_buffer_float g) ''ARB_depth_buffer_float''
    (push_back_unless (GLAD_GL_ARB_texture_compression_rgtc g) ''ARB_texture_compression_rgtc''
     (push_back_unless (GLAD_GL_EXT_texture_compression_s3tc g) ''EXT_texture_compression_s3tc''
      (push_back_unless (GLAD_GL_ARB_clip_control g) ''ARB_clip_control''
       (push_back_unless (GLAD_GL_ARB_multi_bind g) ''ARB_multi_bind''
        (push_back_unless (GLAD_GL_ARB_texture_mirror_clamp_to_edge g) ''ARB_texture_mirror_clamp_to_edge''
         (push_back_unless (GLAD_GL_ARB_vertex_type_10f_11f_11f_rev g) ''ARB_vertex_type_10f_11f_11f_rev''
          (push_back_unless (GLAD_GL_ARB_direct_state_access g) ''ARB_direct_state_access''
           (push_back_unless (GLAD_GL_ARB_buffer_storage g) ''ARB_buffer_storage'' []))))))))
   = missing_extensions g"
  unfolding missing_extensions_def required_extensions_def
  by (simp only: missing_Cons push_back_unless_append append_assoc append_Nil)

lemma SupportsRequiredGLExtensions_eq:
  "SupportsRequiredGLExtensions g tr
     = (missing_extensions g = [], tr @ map unsupported_diagnostic (missing_extensions g))"
  unfolding SupportsRequiredGLExtensions_def Let_def log_each unsupported_ext_missing
  by (rule refl)

lemma distinct_required: "distinct (map fst (required_extensions g))"
  by (simp add: required_extensions_def)

lemma distinct_missing: "distinct (missing_extensions g)"
  unfolding missing_extensions_def
  by (rule distinct_map_filter) (rule distinct_required)


text \<open>
  Claim C2. \<open>SupportsRequiredGLExtensions\<close> looks at all nine flags, whatever the earlier
  ones were: the diagnostics it logs are, in the order of the list, one critical message per
  required extension whose flag is zero, carrying that extension's name; no name is logged
  twice; their number is the number \<open>K\<close> of missing extensions; and the result is true
  exactly when \<open>K = 0\<close>.
\<close>

theorem SupportsRequiredGLExtensions_reports_missing:
  "SupportsRequiredGLExtensions g tr
     = (missing_extensions g = [], tr @ map unsupported_diagnostic (missing_extensions g))
   \<and> length (required_extensions g) = 9
   \<and> distinct (map fst (required_extensions g))
   \<and> distinct (missing_extensions g)
   \<and> set (missing_extensions g) = {name. (name, 0) \<in> set (required_extensions g)}
   \<and> length (map unsupported_diagnostic (missing_extensions g))
       = length (filter is_missing (required_extensions g))
   \<and> fst (SupportsRequiredGLExtensions g tr)
       = (length (filter is_missing (required_extensions g)) = 0)"
proof -
  have names: "set (missing_extensions g) = {name. (name, 0) \<in> set (required_extensions g)}"
    unfolding missing_extensions_def by (auto simp: is_missing_def image_iff)
  have count: "length (missing_extensions g) = length (filter is_missing (required_extensions g))"
    by (simp add: missing_extensions_def)
  have nine: "length (required_extensions g) = 9"
    by (simp add: required_extensions_def)
  have result: "fst (SupportsRequiredGLExtensions g tr)
       = (length (filter is_missing (required_extensions g)) = 0)"
    unfolding SupportsRequiredGLExtensions_eq missing_extensions_def by simp
  show ?thesis
    using SupportsRequiredGLExtensions_eq [of g tr] nine distinct_required [of g]
      distinct_missing [of g] names count result
    by simp
qed

theorem SupportsRequiredGLExtensions_reports_missing_witness:
  "SupportsRequiredGLExtensions two_missing []
     = (False,
        [LOG Critical Frontend ''Unsupported GL extension: {}'' [''ARB_multi_bind''],
         LOG Critical Frontend ''Unsupported GL extension: {}'' [''ARB_depth_buffer_float'']])
   \<and> length (filter is_missing (required_extensions two_missing)) = 2
   \<and> SupportsRequiredGLExtensions all_extensions [] = (True, [])"
proof -
  have two: "missing_extensions two_missing = [''ARB_multi_bind'', ''ARB_depth_buffer_float'']"
    by (simp add: missing_extensions_def required_extensions_def is_missing_def
        two_missing_def all_extensions_def)
  have none: "missing_extensions all_extensions = []"
    by (simp add: missing_extensions_def required_extensions_def is_missing_def
        all_extensions_def)
  have k: "length (filter is_missing (required_extensions two_missing)) = 2"
    by (simp add: required_extensions_def is_missing_def two_missing_def all_extensions_def)
  show ?thesis
    using SupportsRequiredGLExtensions_reports_missing [of two_missing "[]", THEN conjunct1]
      SupportsRequiredGLExtensions_reports_missing [of all_extensions "[]", THEN conjunct1]
      k
    unfolding two none by (simp add: unsupported_diagnostic_def)
qed

section \<open>Properties of Present\<close>

lemma Present_loop_iterations:
  "\<forall>j<n. IsOpen_returns env (k + j) \<Longrightarrow> \<not> IsOpen_returns env (k + n) \<Longrightarrow>
     Present_loop env this k tr
       = Some (tr @ concat (replicate n [TryPresent 100, SDL_GL_SwapWindow (render_window this)]))"
proof (induction n arbitrary: k tr)
  case 0
  then show ?case by (subst Present_loop.simps) simp
next
  case (Suc n)
  from Suc.prems(1) have now: "IsOpen_returns env k"
    by (metis add.right_neutral zero_less_Suc)
  have later: "\<forall>j<n. IsOpen_returns env (Suc k + j)"
    using Suc.prems(1) by (metis Suc_less_eq add_Suc_shift)
  have closed: "\<not> IsOpen_returns env (Suc k + n)"
    using Suc.prems(2) by simp
  show ?case
    by (subst Present_loop.simps) (simp add: now Suc.IH [OF later closed])
qed

lemma Present_loop_within_open:
  "\<forall>j<n. IsOpen_returns env (k + j) \<Longrightarrow>
     Present_loop_within n env this k tr
       = (tr @ concat (replicate n [TryPresent 100, SDL_GL_SwapWindow (render_window this)]),
          False)"
proof (induction n arbitrary: k tr)
  case 0
  show ?case by simp
next
  case (Suc n)
  from Suc.prems have now: "IsOpen_returns env k"
    by (metis add.right_neutral zero_less_Suc)
  have later: "\<forall>j<n. IsOpen_returns env (Suc k + j)"
    using Suc.prems by (metis Suc_less_eq add_Suc_shift)
  show ?case
    by (simp add: now Suc.IH [OF later])
qed

lemma Present_loop_within_returns:
  "Present_loop_within fuel env this k tr = (t, True) \<Longrightarrow> Present_loop env this k tr = Some t"
proof (induction fuel arbitrary: k tr)
  case 0
  then show ?case by simp
next
  case (Suc fuel)
  show ?case
  proof (cases "IsOpen_returns env k")
    case True
    with Suc.prems have "Present_loop_within fuel env this (Suc k)
        (tr @ [TryPresent 100] @ [SDL_GL_SwapWindow (render_window this)]) = (t, True)"
      by simp
    from Suc.IH [OF this] True show ?thesis
      by (subst Present_loop.simps) simp
  next
    case False
    with Suc.prems have "t = tr" by simp
    with False show ?thesis
      by (subst Present_loop.simps) simp
  qed
qed

lemma Present_loop_returns_within:
  assumes "Present_loop env this k tr = Some t"
  shows "\<exists>fuel. Present_loop_within fuel env this k tr = (t, True)"
proof (rule Present_loop.raw_induct
    [where P = "\<lambda>env this k tr t. \<exists>fuel. Present_loop_within fuel env this k tr = (t, True)",
     OF _ assms])
  fix f :: "environment \<Rightarrow> EmuWindow_SDL2_GL \<Rightarrow> nat \<Rightarrow> event list \<Rightarrow> event list option"
  fix env this k tr t
  assume ih: "\<And>env this k tr t. f env this k tr = Some t \<Longrightarrow>
      \<exists>fuel. Present_loop_within fuel env this k tr = (t, True)"
  assume step: "(if IsOpen_returns env k
      then f env this (Suc k)
            (tr @ [TryPresent 100] @ [SDL_GL_SwapWindow (render_window this)])
      else Some tr) = Some t"
  show "\<exists>fuel. Present_loop_within fuel env this k tr = (t, True)"
  proof (cases "IsOpen_returns env k")
    case True
    with step ih obtain fuel where "Present_loop_within fuel env this (Suc k)
        (tr @ [TryPresent 100] @ [SDL_GL_SwapWindow (render_window this)]) = (t, True)"
      by fastforce
    with True have "Present_loop_within (Suc fuel) env this k tr = (t, True)" by simp
    then show ?thesis by blast
  next
    case False
    with step have "Present_loop_within (Suc 0) env this k tr = (t, True)" by simp
    then show ?thesis by blast
  qed
qed

lemma Present_loop_forever:
  assumes "\<forall>k. IsOpen_returns env k"
  shows "Present_loop env this k tr = None"
proof (cases "Present_loop env this k tr")
  case None
  then show ?thesis .
next
  case (Some t)
  from Present_loop_returns_within [OF Some] obtain fuel
    where "Present_loop_within fuel env this k tr = (t, True)" by blast
  moreover have "snd (Present_loop_within fuel env this k tr) = False"
    using assms by (simp add: Present_loop_within_open)
  ultimately show ?thesis by simp
qed

lemma Present_never_returns_while_open:
  "\<forall>k. IsOpen_returns env k \<Longrightarrow> Present env this tr = None"
  by (simp add: Present_def Present_loop_forever)

lemma Present_returns_iff_within:
  "Present env this tr = Some t \<longleftrightarrow> (\<exists>fuel. Present_within fuel env this tr = (t, True))"
proof
  assume "Present env this tr = Some t"
  then obtain t3 where loop: "Present_loop env this 0
      (tr @ [SDL_GL_MakeCurrent (render_window this) (window_context this)]
          @ [SDL_GL_SetSwapInterval (if use_vsync env then 1 else 0)]) = Some t3"
    and t: "t = t3 @ [SDL_GL_MakeCurrent (render_window this) None]"
    by (auto simp: Present_def Let_def split: option.splits)
  from Present_loop_returns_within [OF loop] obtain fuel where
    "Present_loop_within fuel env this 0
      (tr @ [SDL_GL_MakeCurrent (render_window this) (window_context this)]
          @ [SDL_GL_SetSwapInterval (if use_vsync env then 1 else 0)]) = (t3, True)"
    by blast
  then have "Present_within fuel env this tr = (t, True)"
    by (simp add: Present_within_def Let_def t)
  then show "\<exists>fuel. Present_within fuel env this tr = (t, True)" by blast
next
  assume "\<exists>fuel. Present_within fuel env this tr = (t, True)"
  then obtain fuel where within: "Present_within fuel env this tr = (t, True)" by blast
  obtain t3 left where loop: "Present_loop_within fuel env this 0
      (tr @ [SDL_GL_MakeCurrent (render_window this) (window_context this)]
          @ [SDL_GL_SetSwapInterval (if use_vsync env then 1 else 0)]) = (t3, left)"
    by (cases "Present_loop_within fuel env this 0
      (tr @ [SDL_GL_MakeCurrent (render_window this) (window_context this)]
          @ [SDL_GL_SetSwapInterval (if use_vsync env then 1 else 0)])")
  from within loop have left: "left" and t: "t = t3 @ [SDL_GL_MakeCurrent (render_window this) None]"
    by (auto simp: Present_within_def Let_def split: bool.splits)
  from Present_loop_within_returns [OF loop [unfolded left [THEN eqTrueI]]]
  show "Present env this tr = Some t"
    by (simp add: Present_def Let_def t)
qed

text \<open>
  Claim C3. In every run \<open>Present\<close> first binds the primary context to the render window
  and sets the swap interval once, from \<open>use_vsync\<close> as read at that moment; then, for as
  long as \<^verbatim>\<open>IsOpen()\<close> reads true, each turn of the loop makes one \<^verbatim>\<open>TryPresent(100)\<close>
  call followed by one \<^verbatim>\<open>SDL_GL_SwapWindow\<close> call, the answer of \<^verbatim>\<open>TryPresent\<close> not
  being read: after \<open>n\<close> true readings the calls made are exactly these, and the function
  has not returned. If the next reading is false, \<open>Present\<close> releases the binding and
  returns, with exactly that trace. If the window never reads closed, \<open>Present\<close> never
  returns. The bounded view and the function agree on every run that returns.
\<close>

theorem Present_sequence:
  "((\<forall>k<n. IsOpen_returns env k) \<longrightarrow>
      Present_within n env this tr
        = (tr @ [SDL_GL_MakeCurrent (render_window this) (window_context this),
                 SDL_GL_SetSwapInterval (if use_vsync env then 1 else 0)]
              @ concat (replicate n [TryPresent 100, SDL_GL_SwapWindow (render_window this)]),
           False))
   \<and> ((\<forall>k<n. IsOpen_returns env k) \<and> \<not> IsOpen_returns env n \<longrightarrow>
      Present env this tr
        = Some (tr @ [SDL_GL_MakeCurrent (render_window this) (window_context this),
                      SDL_GL_SetSwapInterval (if use_vsync env then 1 else 0)]
                   @ concat (replicate n [TryPresent 100, SDL_GL_SwapWindow (render_window this)])
                   @ [SDL_GL_MakeCurrent (render_window this) None]))
   \<and> ((\<forall>k. IsOpen_returns env k) \<longrightarrow> Present env this tr = None)
   \<and> (Present env this tr = Some t \<longleftrightarrow> (\<exists>fuel. Present_within fuel env this tr = (t, True)))"
proof -
  have running: "Present_within n env this tr
        = (tr @ [SDL_GL_MakeCurrent (render_window this) (window_context this),
                 SDL_GL_SetSwapInterval (if use_vsync env then 1 else 0)]
              @ concat (replicate n [TryPresent 100, SDL_GL_SwapWindow (render_window this)]),
           False)"
    if "\<forall>k<n. IsOpen_returns env k"
  proof -
    from that have opens: "\<forall>j<n. IsOpen_returns env (0 + j)" by simp
    show ?thesis
      unfolding Present_within_def Let_def Present_loop_within_open [OF opens]
      by simp
  qed
  have returns: "Present env this tr
        = Some (tr @ [SDL_GL_MakeCurrent (render_window this) (window_context this),
                      SDL_GL_SetSwapInterval (if use_vsync env then 1 else 0)]
                   @ concat (replicate n [TryPresent 100, SDL_GL_SwapWindow (render_window this)])
                   @ [SDL_GL_MakeCurrent (render_window this) None])"
    if "\<forall>k<n. IsOpen_returns env k" and "\<not> IsOpen_returns env n"
  proof -
    from that have opens: "\<forall>j<n. IsOpen_returns env (0 + j)"
      and closes: "\<not> IsOpen_returns env (0 + n)" by simp_all
    show ?thesis
      unfolding Present_def Let_def Present_loop_iterations [OF opens closes]
      by simp
  qed
  show ?thesis
    using running returns Present_never_returns_while_open [of env this tr]
      Present_returns_iff_within [of env this tr t]
    by blast
qed

theorem Present_sequence_witness:
  "Present example_env example_window []
     = Some [SDL_GL_MakeCurrent (Some (SDL_Window 11)) (Some (GL_Context 13)),
             SDL_GL_SetSwapInterval 1,
             TryPresent 100, SDL_GL_SwapWindow (Some (SDL_Window 11)),
             TryPresent 100, SDL_GL_SwapWindow (Some (SDL_Window 11)),
             SDL_GL_MakeCurrent (Some (SDL_Window 11)) None]
   \<and> Present_within 2 example_env example_window []
     = ([SDL_GL_MakeCurrent (Some (SDL_Window 11)) (Some (GL_Context 13)),
         SDL_GL_SetSwapInterval 1,
         TryPresent 100, SDL_GL_SwapWindow (Some (SDL_Window 11)),
         TryPresent 100, SDL_GL_SwapWindow (Some (SDL_Window 11))], False)
   \<and> Present never_closed_env example_window [] = None
   \<and> Present_within 3 never_closed_env example_window []
     = ([SDL_GL_MakeCurrent (Some (SDL_Window 11)) (Some (GL_Context 13)),
         SDL_GL_SetSwapInterval 1,
         TryPresent 100, SDL_GL_SwapWindow (Some (SDL_Window 11)),
         TryPresent 100, SDL_GL_SwapWindow (Some (SDL_Window 11)),
         TryPresent 100, SDL_GL_SwapWindow (Some (SDL_Window 11))], False)"
proof -
  have opens: "\<forall>k<2. IsOpen_returns example_env k"
    by (simp add: example_env_def)
  have closes: "\<not> IsOpen_returns example_env 2"
    by (simp add: example_env_def)
  have never: "\<forall>k. IsOpen_returns never_closed_env k"
    by (simp add: never_closed_env_def)
  then have never3: "\<forall>k<3. IsOpen_returns never_closed_env k"
    by simp
  have vsync: "use_vsync example_env" "use_vsync never_closed_env"
    by (simp_all add: example_env_def never_closed_env_def)
  have fields: "render_window example_window = Some (SDL_Window 11)"
    "window_context example_window = Some (GL_Context 13)"
    by (simp_all add: example_window_def)
  have two: "replicate 2 x = [x, x]" and three: "replicate 3 x = [x, x, x]" for x :: "event list"
    by (simp_all add: numeral_2_eq_2 numeral_3_eq_3)
  note closed = Present_sequence [of 2 example_env example_window "[]" "[]"]
  note open3 = Present_sequence [of 3 never_closed_env example_window "[]" "[]"]
  have a: "Present example_env example_window []
     = Some [SDL_GL_MakeCurrent (Some (SDL_Window 11)) (Some (GL_Context 13)),
             SDL_GL_SetSwapInterval 1,
             TryPresent 100, SDL_GL_SwapWindow (Some (SDL_Window 11)),
             TryPresent 100, SDL_GL_SwapWindow (Some (SDL_Window 11)),
             SDL_GL_MakeCurrent (Some (SDL_Window 11)) None]"
    using closed [THEN conjunct2, THEN conjunct1, THEN mp, OF conjI, OF opens closes]
    by (simp add: vsync fields two)
  have b: "Present_within 2 example_env example_window []
     = ([SDL_GL_MakeCurrent (Some (SDL_Window 11)) (Some (GL_Context 13)),
         SDL_GL_SetSwapInterval 1,
         TryPresent 100, SDL_GL_SwapWindow (Some (SDL_Window 11)),
         TryPresent 100, SDL_GL_SwapWindow (Some (SDL_Window 11))], False)"
    using closed [THEN conjunct1, THEN mp, OF opens]
    by (simp add: vsync fields two)
  have c: "Present never_closed_env example_window [] = None"
    using open3 [THEN conjunct2, THEN conjunct2, THEN conjunct1, THEN mp, OF never] .
  have d: "Present_within 3 never_closed_env example_window []
     = ([SDL_GL_MakeCurrent (Some (SDL_Window 11)) (Some (GL_Context 13)),
         SDL_GL_SetSwapInterval 1,
         TryPresent 100, SDL_GL_SwapWindow (Some (SDL_Window 11)),
         TryPresent 100, SDL_GL_SwapWindow (Some (SDL_Window 11)),
         TryPresent 100, SDL_GL_SwapWindow (Some (SDL_Window 11))], False)"
    using open3 [THEN conjunct1, THEN mp, OF never3]
    by (simp add: vsync fields three)
  from a b c d show ?thesis by simp
qed

section \<open>Properties of the constructor\<close>

lemma window_title_format:
  "fmt_format ''yuzu {} | {}-{}'' [a, b, c] = Some (''yuzu '' @ a @ '' | '' @ b @ ''-'' @ c)"
  by simp

lemma CreateSharedContext_eq:
  "CreateSharedContext env this tr
     = (Some \<lparr>window = SDL_CreateWindow_returns env (tr @ [hidden_window_call]),
               gl_context = SDL_GL_CreateContext_returns env
                 (tr @ [hidden_window_call,
                        SDL_GL_CreateContext (SDL_CreateWindow_returns env (tr @ [hidden_window_call]))]),
               is_current = False\<rparr>,
        tr @ [hidden_window_call,
              SDL_GL_CreateContext (SDL_CreateWindow_returns env (tr @ [hidden_window_call]))])"
  by (simp add: CreateSharedContext_def SDLGLContext_ctor_def hidden_window_call_def Let_def)

lemma attribute_prefix:
  "(if renderer_debug env
    then (tr @ [SDL_GL_SetAttribute SDL_GL_CONTEXT_MAJOR_VERSION 4,
                SDL_GL_SetAttribute SDL_GL_CONTEXT_MINOR_VERSION 3,
                SDL_GL_SetAttribute SDL_GL_CONTEXT_PROFILE_MASK
                  SDL_GL_CONTEXT_PROFILE_COMPATIBILITY,
                SDL_GL_SetAttribute SDL_GL_DOUBLEBUFFER 1,
                SDL_GL_SetAttribute SDL_GL_RED_SIZE 8,
                SDL_GL_SetAttribute SDL_GL_GREEN_SIZE 8,
                SDL_GL_SetAttribute SDL_GL_BLUE_SIZE 8,
                SDL_GL_SetAttribute SDL_GL_ALPHA_SIZE 0,
                SDL_GL_SetAttribute SDL_GL_SHARE_WITH_CURRENT_CONTEXT 1])
         @ [SDL_GL_SetAttribute SDL_GL_CONTEXT_FLAGS SDL_GL_CONTEXT_DEBUG_FLAG]
    else tr @ [SDL_GL_SetAttribute SDL_GL_CONTEXT_MAJOR_VERSION 4,
               SDL_GL_SetAttribute SDL_GL_CONTEXT_MINOR_VERSION 3,
               SDL_GL_SetAttribute SDL_GL_CONTEXT_PROFILE_MASK
                 SDL_GL_CONTEXT_PROFILE_COMPATIBILITY,
               SDL_GL_SetAttribute SDL_GL_DOUBLEBUFFER 1,
               SDL_GL_SetAttribute SDL_GL_RED_SIZE 8,
               SDL_GL_SetAttribute SDL_GL_GREEN_SIZE 8,
               SDL_GL_SetAttribute SDL_GL_BLUE_SIZE 8,
               SDL_GL_SetAttribute SDL_GL_ALPHA_SIZE 0,
               SDL_GL_SetAttribute SDL_GL_SHARE_WITH_CURRENT_CONTEXT 1])
   @ [SDL_GL_SetSwapInterval 0]
   = tr @ gl_attribute_calls env"
  by (simp add: gl_attribute_calls_def)

lemma title_call:
  "SDL_CreateWindow (Some (c_str (''yuzu '' @ g_build_fullname env @ '' | '' @ g_scm_branch env
                                   @ ''-'' @ g_scm_desc env)))
     SDL_WINDOWPOS_UNDEFINED SDL_WINDOWPOS_UNDEFINED
     (ScreenUndocked_Width env) (ScreenUndocked_Height env)
     {SDL_WINDOW_OPENGL, SDL_WINDOW_RESIZABLE, SDL_WINDOW_ALLOW_HIGHDPI}
   = render_window_call env"
  by (simp add: render_window_call_def window_title_def)

lemma fullscreen_step:
  "(if fullscreen then t @ [Fullscreen] else t) @ [e] = t @ (if fullscreen then [Fullscreen] else []) @ [e]"
  by simp

lemma ctor_unfold:
  "EmuWindow_SDL2_GL_ctor env fullscreen tr =
     (if SDL_CreateWindow_returns env (upto_render_window env tr) = None
      then (Inl (Exit 1),
            fatal_report env ''Failed to create SDL2 window! {}'' (upto_render_window env tr))
      else if SDL_GL_CreateContext_returns env (upto_window_context env fullscreen tr) = None
      then (Inl (Exit 1),
            fatal_report env ''Failed to create SDL2 GL context: {}''
              (upto_core_context env fullscreen tr))
      else if fst (gladLoadGLLoader_returns env (upto_loader env fullscreen tr)) = 0
      then (Inl (Exit 1),
            fatal_report env ''Failed to initialize GL functions! {}''
              (upto_loader env fullscreen tr))
      else if missing_extensions
                (snd (gladLoadGLLoader_returns env (upto_loader env fullscreen tr))) \<noteq> []
      then (Inl (Exit 1),
            upto_loader env fullscreen tr
            @ map unsupported_diagnostic
                (missing_extensions
                   (snd (gladLoadGLLoader_returns env (upto_loader env fullscreen tr))))
            @ [LOG Critical Frontend
                 ''GPU does not support all required OpenGL extensions! Exiting...'' []])
      else (Inr (constructed env fullscreen tr),
            upto_loader env fullscreen tr
            @ [OnResize, OnMinimalClientAreaChangeRequest, SDL_PumpEvents,
               LOG Info Frontend ''yuzu Version: {} | {}-{}''
                 [g_build_fullname env, g_scm_branch env, g_scm_desc env],
               LogSettings]))"
  unfolding EmuWindow_SDL2_GL_ctor_def Let_def window_title_format option.case
    attribute_prefix title_call fullscreen_step CreateSharedContext_eq
    SupportsRequiredGLExtensions_eq
    upto_render_window_def upto_dummy_window_def upto_window_context_def
    upto_shared_window_def upto_core_context_def upto_loader_def constructed_def
    fatal_report_def case_prod_unfold
  by (simp add: hidden_window_call_def)


lemma ctor_trace_begins:
  "\<exists>rest. snd (EmuWindow_SDL2_GL_ctor env fullscreen tr) = upto_render_window env tr @ rest"
  unfolding ctor_unfold
  by (simp add: fatal_report_def upto_loader_def upto_core_context_def upto_shared_window_def
      upto_window_context_def upto_dummy_window_def)

subsection \<open>The window title\<close>

lemma c_str_no_NUL: "CHR 0x00 \<notin> set s \<Longrightarrow> c_str s = s"
  unfolding c_str_def by (rule takeWhile_eq_all_conv [THEN iffD2]) auto

text \<open>
  Claim C8. The format string with the three build strings yields the title
  \<^verbatim>\<open><product> <version> | <branch>-<description>\<close>, the product being the literal
  \<^verbatim>\<open>yuzu\<close>; the constructor's first window, the visible one, is created right after the
  attribute calls with that title (as a C string, so all of it when it holds no NUL); and for
  the build strings \<^verbatim>\<open>1.0\<close>, \<^verbatim>\<open>master\<close>, \<^verbatim>\<open>abcd123\<close> the title is
  \<^verbatim>\<open>yuzu 1.0 | master-abcd123\<close>.
\<close>

theorem render_window_title:
  "fmt_format ''yuzu {} | {}-{}'' [g_build_fullname env, g_scm_branch env, g_scm_desc env]
     = Some (window_title env)
   \<and> (\<exists>rest. snd (EmuWindow_SDL2_GL_ctor env fullscreen tr)
         = tr @ gl_attribute_calls env
           @ [SDL_CreateWindow (Some (c_str (window_title env)))
                SDL_WINDOWPOS_UNDEFINED SDL_WINDOWPOS_UNDEFINED
                (ScreenUndocked_Width env) (ScreenUndocked_Height env)
                {SDL_WINDOW_OPENGL, SDL_WINDOW_RESIZABLE, SDL_WINDOW_ALLOW_HIGHDPI}]
           @ rest)
   \<and> (CHR 0x00 \<notin> set (window_title env) \<longrightarrow> c_str (window_title env) = window_title env)
   \<and> (g_build_fullname env = ''1.0'' \<and> g_scm_branch env = ''master''
        \<and> g_scm_desc env = ''abcd123''
      \<longrightarrow> c_str (window_title env) = ''yuzu 1.0 | master-abcd123'')"
proof -
  have format: "fmt_format ''yuzu {} | {}-{}''
      [g_build_fullname env, g_scm_branch env, g_scm_desc env] = Some (window_title env)"
    unfolding window_title_format window_title_def by simp
  from ctor_trace_begins [of env fullscreen tr]
  have call: "\<exists>rest. snd (EmuWindow_SDL2_GL_ctor env fullscreen tr)
         = tr @ gl_attribute_calls env
           @ [SDL_CreateWindow (Some (c_str (window_title env)))
                SDL_WINDOWPOS_UNDEFINED SDL_WINDOWPOS_UNDEFINED
                (ScreenUndocked_Width env) (ScreenUndocked_Height env)
                {SDL_WINDOW_OPENGL, SDL_WINDOW_RESIZABLE, SDL_WINDOW_ALLOW_HIGHDPI}]
           @ rest"
    by (simp add: upto_render_window_def render_window_call_def)
  have example: "c_str (window_title env) = ''yuzu 1.0 | master-abcd123''"
    if "g_build_fullname env = ''1.0''" "g_scm_branch env = ''master''"
      "g_scm_desc env = ''abcd123''"
    using that by (simp add: window_title_def c_str_def)
  show ?thesis
    using format call c_str_no_NUL [of "window_title env"] example by blast
qed

theorem render_window_title_witness:
  "fmt_format ''yuzu {} | {}-{}'' [''1.0'', ''master'', ''abcd123'']
     = Some ''yuzu 1.0 | master-abcd123''
   \<and> c_str (window_title example_env) = ''yuzu 1.0 | master-abcd123''
   \<and> take 11 (snd (EmuWindow_SDL2_GL_ctor example_env False []))
     = gl_attribute_calls example_env
       @ [SDL_CreateWindow (Some ''yuzu 1.0 | master-abcd123'')
            SDL_WINDOWPOS_UNDEFINED SDL_WINDOWPOS_UNDEFINED 1280 720
            {SDL_WINDOW_OPENGL, SDL_WINDOW_RESIZABLE, SDL_WINDOW_ALLOW_HIGHDPI}]"
proof -
  have strings: "g_build_fullname example_env = ''1.0''" "g_scm_branch example_env = ''master''"
    "g_scm_desc example_env = ''abcd123''"
    by (simp_all add: example_env_def)
  have size: "ScreenUndocked_Width example_env = 1280" "ScreenUndocked_Height example_env = 720"
    by (simp_all add: example_env_def)
  note title = render_window_title [of example_env False "[]"]
  from title have c: "c_str (window_title example_env) = ''yuzu 1.0 | master-abcd123''"
    using strings by blast
  from title have f: "fmt_format ''yuzu {} | {}-{}'' [''1.0'', ''master'', ''abcd123'']
     = Some (window_title example_env)"
    using strings by simp
  have t: "window_title example_env = ''yuzu 1.0 | master-abcd123''"
    by (simp add: window_title_def strings)
  from title obtain rest where rest: "snd (EmuWindow_SDL2_GL_ctor example_env False [])
         = [] @ gl_attribute_calls example_env
           @ [SDL_CreateWindow (Some (c_str (window_title example_env)))
                SDL_WINDOWPOS_UNDEFINED SDL_WINDOWPOS_UNDEFINED
                (ScreenUndocked_Width example_env) (ScreenUndocked_Height example_env)
                {SDL_WINDOW_OPENGL, SDL_WINDOW_RESIZABLE, SDL_WINDOW_ALLOW_HIGHDPI}]
           @ rest"
    by blast
  have len: "length (gl_attribute_calls example_env) = 10"
    by (simp add: gl_attribute_calls_def example_env_def)
  have "take 11 (snd (EmuWindow_SDL2_GL_ctor example_env False []))
     = gl_attribute_calls example_env
       @ [SDL_CreateWindow (Some ''yuzu 1.0 | master-abcd123'')
            SDL_WINDOWPOS_UNDEFINED SDL_WINDOWPOS_UNDEFINED 1280 720
            {SDL_WINDOW_OPENGL, SDL_WINDOW_RESIZABLE, SDL_WINDOW_ALLOW_HIGHDPI}]"
    unfolding rest c size using len by simp
  then show ?thesis
    using f c t by simp
qed


subsection \<open>Order of the steps and fatal failures\<close>

lemma upto_loader_eq:
  "upto_loader env fullscreen tr
     = tr @ gl_attribute_calls env @ [render_window_call env, hidden_window_call]
       @ (if fullscreen then [Fullscreen] else [])
       @ [SDL_GL_CreateContext (SDL_CreateWindow_returns env (upto_render_window env tr)),
          hidden_window_call,
          SDL_GL_CreateContext (SDL_CreateWindow_returns env (upto_shared_window env fullscreen tr)),
          gladLoadGLLoader]"
  by (simp add: upto_loader_def upto_core_context_def upto_shared_window_def
      upto_window_context_def upto_dummy_window_def upto_render_window_def)

lemma context_hosts_append: "context_hosts (xs @ ys) = context_hosts xs @ context_hosts ys"
  by (induction xs rule: context_hosts.induct) simp_all

lemma context_hosts_attributes: "context_hosts (gl_attribute_calls env) = []"
  by (simp add: gl_attribute_calls_def)

lemma no_context_before_windows: "context_hosts (upto_dummy_window env tr) = context_hosts tr"
  by (simp add: upto_dummy_window_def upto_render_window_def context_hosts_append
      context_hosts_attributes render_window_call_def hidden_window_call_def)

lemma critical_fatal_report:
  "filter is_critical (fatal_report env message tr)
     = filter is_critical tr @ [LOG Critical Frontend message [SDL_GetError_returns env (tr @ [SDL_GetError])]]"
  by (simp add: fatal_report_def is_critical_def)

text \<open>
  Claim C5, as amended. The constructor makes its calls in this order: the attribute
  configuration, the visible window, the auxiliary hidden window, the fullscreen transition
  if requested, the primary context, the shared context (a hidden window of its own, then its
  context), the loader, the capability check; no context is created before both windows
  exist. If the visible window cannot be created, the constructor stops there; if the primary
  context cannot be created, it stops once the shared context has been created as well; if
  the loader or the capability check fails, it stops at that step. Each time it logs one
  critical diagnostic for the step and exits with status 1; in the capability case the check
  has logged one critical diagnostic per missing extension before. The last three cases and
  the successful end are stated for a shared context that was created; what the constructor
  does when it was not is not part of this statement.
\<close>

theorem ctor_order_and_failures:
  "upto_loader env fullscreen tr
     = tr @ gl_attribute_calls env @ [render_window_call env, hidden_window_call]
       @ (if fullscreen then [Fullscreen] else [])
       @ [SDL_GL_CreateContext (SDL_CreateWindow_returns env (upto_render_window env tr)),
          hidden_window_call,
          SDL_GL_CreateContext (SDL_CreateWindow_returns env (upto_shared_window env fullscreen tr)),
          gladLoadGLLoader]
   \<and> context_hosts (upto_dummy_window env tr) = context_hosts tr
   \<and> (SDL_CreateWindow_returns env (upto_render_window env tr) = None \<longrightarrow>
        EmuWindow_SDL2_GL_ctor env fullscreen tr
          = (Inl (Exit 1),
             fatal_report env ''Failed to create SDL2 window! {}'' (upto_render_window env tr)))
   \<and> (SDL_CreateWindow_returns env (upto_render_window env tr) \<noteq> None
        \<and> SDL_GL_CreateContext_returns env (upto_window_context env fullscreen tr) = None \<longrightarrow>
        EmuWindow_SDL2_GL_ctor env fullscreen tr
          = (Inl (Exit 1),
             fatal_report env ''Failed to create SDL2 GL context: {}''
               (upto_core_context env fullscreen tr)))
   \<and> (SDL_CreateWindow_returns env (upto_render_window env tr) \<noteq> None
        \<and> SDL_GL_CreateContext_returns env (upto_window_context env fullscreen tr) \<noteq> None
        \<and> SDL_CreateWindow_returns env (upto_shared_window env fullscreen tr) \<noteq> None
        \<and> SDL_GL_CreateContext_returns env (upto_core_context env fullscreen tr) \<noteq> None \<longrightarrow>
        (fst (gladLoadGLLoader_returns env (upto_loader env fullscreen tr)) = 0 \<longrightarrow>
           EmuWindow_SDL2_GL_ctor env fullscreen tr
             = (Inl (Exit 1),
                fatal_report env ''Failed to initialize GL functions! {}''
                  (upto_loader env fullscreen tr)))
        \<and> (fst (gladLoadGLLoader_returns env (upto_loader env fullscreen tr)) \<noteq> 0
           \<and> missing_extensions
                (snd (gladLoadGLLoader_returns env (upto_loader env fullscreen tr))) \<noteq> [] \<longrightarrow>
           EmuWindow_SDL2_GL_ctor env fullscreen tr
             = (Inl (Exit 1),
                upto_loader env fullscreen tr
                @ map unsupported_diagnostic
                    (missing_extensions
                       (snd (gladLoadGLLoader_returns env (upto_loader env fullscreen tr))))
                @ [LOG Critical Frontend
                     ''GPU does not support all required OpenGL extensions! Exiting...'' []]))
        \<and> (fst (gladLoadGLLoader_returns env (upto_loader env fullscreen tr)) \<noteq> 0
           \<and> missing_extensions
                (snd (gladLoadGLLoader_returns env (upto_loader env fullscreen tr))) = [] \<longrightarrow>
           EmuWindow_SDL2_GL_ctor env fullscreen tr
             = (Inr (constructed env fullscreen tr),
                upto_loader env fullscreen tr
                @ [OnResize, OnMinimalClientAreaChangeRequest, SDL_PumpEvents,
                   LOG Info Frontend ''yuzu Version: {} | {}-{}''
                     [g_build_fullname env, g_scm_branch env, g_scm_desc env],
                   LogSettings])))
   \<and> filter is_critical (fatal_report env message tr)
       = filter is_critical tr
         @ [LOG Critical Frontend message [SDL_GetError_returns env (tr @ [SDL_GetError])]]"
  using upto_loader_eq [of env fullscreen tr] no_context_before_windows [of env tr]
    critical_fatal_report [of env message tr]
  by (simp add: ctor_unfold)


text \<open>The example environments, evaluated.\<close>

lemma example_lengths:
  assumes "\<not> renderer_debug env"
  shows "length (upto_render_window env []) = 11"
    and "length (upto_dummy_window env []) = 12"
    and "length (upto_window_context env False []) = 13"
    and "length (upto_shared_window env False []) = 14"
    and "length (upto_core_context env False []) = 15"
    and "length (upto_loader env False []) = 16"
  using assms
  by (simp_all add: upto_loader_def upto_core_context_def upto_shared_window_def
      upto_window_context_def upto_dummy_window_def upto_render_window_def gl_attribute_calls_def)

lemma example_no_critical:
  "filter is_critical (upto_loader env False []) = []"
  "filter is_critical (upto_core_context env False []) = []"
  "filter is_critical (upto_render_window env []) = []"
  by (simp_all add: upto_loader_def upto_core_context_def upto_shared_window_def
      upto_window_context_def upto_dummy_window_def upto_render_window_def gl_attribute_calls_def
      render_window_call_def hidden_window_call_def is_critical_def)

lemma example_env_fields:
  "\<not> renderer_debug example_env"
  "SDL_CreateWindow_returns example_env t = Some (SDL_Window (length t))"
  "SDL_GL_CreateContext_returns example_env t = Some (GL_Context (length t))"
  "gladLoadGLLoader_returns example_env t = (1, all_extensions)"
  "SDL_GetError_returns example_env t = []"
  by (simp_all add: example_env_def)

lemma no_window_env_fields:
  "SDL_CreateWindow_returns no_window_env t = None"
  "SDL_GetError_returns no_window_env t = []"
  by (simp_all add: no_window_env_def example_env_def)

lemma no_primary_context_env_fields:
  "\<not> renderer_debug no_primary_context_env"
  "SDL_CreateWindow_returns no_primary_context_env t = Some (SDL_Window (length t))"
  "SDL_GL_CreateContext_returns no_primary_context_env t
     = (if length t = 13 then None else Some (GL_Context (length t)))"
  "SDL_GetError_returns no_primary_context_env t = []"
  by (simp_all add: no_primary_context_env_def example_env_def)

lemma no_shared_context_env_fields:
  "\<not> renderer_debug no_shared_context_env"
  "SDL_CreateWindow_returns no_shared_context_env t = Some (SDL_Window (length t))"
  "SDL_GL_CreateContext_returns no_shared_context_env t
     = (if length t = 15 then None else Some (GL_Context (length t)))"
  "gladLoadGLLoader_returns no_shared_context_env t = (1, all_extensions)"
  by (simp_all add: no_shared_context_env_def example_env_def)

lemma no_loader_env_fields:
  "\<not> renderer_debug no_loader_env"
  "SDL_CreateWindow_returns no_loader_env t = Some (SDL_Window (length t))"
  "SDL_GL_CreateContext_returns no_loader_env t = Some (GL_Context (length t))"
  "gladLoadGLLoader_returns no_loader_env t = (0, all_extensions)"
  "SDL_GetError_returns no_loader_env t = []"
  by (simp_all add: no_loader_env_def example_env_def)

lemma lacking_driver_env_fields:
  "\<not> renderer_debug lacking_driver_env"
  "SDL_CreateWindow_returns lacking_driver_env t = Some (SDL_Window (length t))"
  "SDL_GL_CreateContext_returns lacking_driver_env t = Some (GL_Context (length t))"
  "gladLoadGLLoader_returns lacking_driver_env t = (1, two_missing)"
  by (simp_all add: lacking_driver_env_def example_env_def)

lemma missing_all_extensions: "missing_extensions all_extensions = []"
  by (simp add: missing_extensions_def required_extensions_def is_missing_def all_extensions_def)

lemma missing_two_missing:
  "missing_extensions two_missing = [''ARB_multi_bind'', ''ARB_depth_buffer_float'']"
  by (simp add: missing_extensions_def required_extensions_def is_missing_def
      two_missing_def all_extensions_def)

lemma constructed_example: "constructed example_env False [] = example_window"
  by (simp add: constructed_def example_window_def example_env_fields
      example_lengths [OF example_env_fields(1)])

theorem ctor_order_and_failures_witness:
  "EmuWindow_SDL2_GL_ctor example_env False []
     = (Inr example_window,
        upto_loader example_env False []
        @ [OnResize, OnMinimalClientAreaChangeRequest, SDL_PumpEvents,
           LOG Info Frontend ''yuzu Version: {} | {}-{}'' [''1.0'', ''master'', ''abcd123''],
           LogSettings])
   \<and> EmuWindow_SDL2_GL_ctor no_window_env False []
     = (Inl (Exit 1),
        fatal_report no_window_env ''Failed to create SDL2 window! {}''
          (upto_render_window no_window_env []))
   \<and> EmuWindow_SDL2_GL_ctor no_primary_context_env False []
     = (Inl (Exit 1),
        fatal_report no_primary_context_env ''Failed to create SDL2 GL context: {}''
          (upto_core_context no_primary_context_env False []))
   \<and> EmuWindow_SDL2_GL_ctor no_loader_env False []
     = (Inl (Exit 1),
        fatal_report no_loader_env ''Failed to initialize GL functions! {}''
          (upto_loader no_loader_env False []))
   \<and> EmuWindow_SDL2_GL_ctor lacking_driver_env False []
     = (Inl (Exit 1),
        upto_loader lacking_driver_env False []
        @ [unsupported_diagnostic ''ARB_multi_bind'',
           unsupported_diagnostic ''ARB_depth_buffer_float'',
           LOG Critical Frontend
             ''GPU does not support all required OpenGL extensions! Exiting...'' []])"
proof -
  note good = ctor_order_and_failures [of example_env False "[]"]
  have strings: "g_build_fullname example_env = ''1.0''" "g_scm_branch example_env = ''master''"
    "g_scm_desc example_env = ''abcd123''"
    by (simp_all add: example_env_def)
  have a: "EmuWindow_SDL2_GL_ctor example_env False []
     = (Inr example_window,
        upto_loader example_env False []
        @ [OnResize, OnMinimalClientAreaChangeRequest, SDL_PumpEvents,
           LOG Info Frontend ''yuzu Version: {} | {}-{}'' [''1.0'', ''master'', ''abcd123''],
           LogSettings])"
    using good
    by (simp add: example_env_fields missing_all_extensions constructed_example strings)
  have b: "EmuWindow_SDL2_GL_ctor no_window_env False []
     = (Inl (Exit 1),
        fatal_report no_window_env ''Failed to create SDL2 window! {}''
          (upto_render_window no_window_env []))"
    using ctor_order_and_failures [of no_window_env False "[]"]
    by (simp add: no_window_env_fields)
  have c: "EmuWindow_SDL2_GL_ctor no_primary_context_env False []
     = (Inl (Exit 1),
        fatal_report no_primary_context_env ''Failed to create SDL2 GL context: {}''
          (upto_core_context no_primary_context_env False []))"
    using ctor_order_and_failures [of no_primary_context_env False "[]"]
    by (simp add: no_primary_context_env_fields
        example_lengths [OF no_primary_context_env_fields(1)])
  have d: "EmuWindow_SDL2_GL_ctor no_loader_env False []
     = (Inl (Exit 1),
        fatal_report no_loader_env ''Failed to initialize GL functions! {}''
          (upto_loader no_loader_env False []))"
    using ctor_order_and_failures [of no_loader_env False "[]"]
    by (simp add: no_loader_env_fields)
  have e: "EmuWindow_SDL2_GL_ctor lacking_driver_env False []
     = (Inl (Exit 1),
        upto_loader lacking_driver_env False []
        @ [unsupported_diagnostic ''ARB_multi_bind'',
           unsupported_diagnostic ''ARB_depth_buffer_float'',
           LOG Critical Frontend
             ''GPU does not support all required OpenGL extensions! Exiting...'' []])"
    using ctor_order_and_failures [of lacking_driver_env False "[]"]
    by (simp add: lacking_driver_env_fields missing_two_missing)
  from a b c d e show ?thesis by blast
qed

text \<open>
  The claim as written fails where the capability check fails: the constructor then exits
  after three critical diagnostics (one per missing extension, then its own), not one. And
  where the primary context cannot be created the constructor does not stop at that step: it
  goes on to create the shared context (on window 14) before it logs and exits.
\<close>

theorem ctor_capability_failure_logs_three:
  "fst (EmuWindow_SDL2_GL_ctor lacking_driver_env False []) = Inl (Exit 1)
   \<and> filter is_critical (snd (EmuWindow_SDL2_GL_ctor lacking_driver_env False []))
     = [LOG Critical Frontend ''Unsupported GL extension: {}'' [''ARB_multi_bind''],
        LOG Critical Frontend ''Unsupported GL extension: {}'' [''ARB_depth_buffer_float''],
        LOG Critical Frontend
          ''GPU does not support all required OpenGL extensions! Exiting...'' []]
   \<and> length (filter is_critical (snd (EmuWindow_SDL2_GL_ctor lacking_driver_env False []))) \<noteq> 1
   \<and> fst (EmuWindow_SDL2_GL_ctor no_primary_context_env False []) = Inl (Exit 1)
   \<and> context_hosts (snd (EmuWindow_SDL2_GL_ctor no_primary_context_env False []))
     = [Some (SDL_Window 11), Some (SDL_Window 14)]"
proof -
  note len = example_lengths [OF no_primary_context_env_fields(1)]
  have hosts: "context_hosts (upto_core_context no_primary_context_env False [])
      = [Some (SDL_Window 11), Some (SDL_Window 14)]"
    by (simp add: upto_core_context_def upto_shared_window_def upto_window_context_def
        no_context_before_windows context_hosts_append hidden_window_call_def
        no_primary_context_env_fields len)
  have lacking: "fst (EmuWindow_SDL2_GL_ctor lacking_driver_env False []) = Inl (Exit 1)
   \<and> filter is_critical (snd (EmuWindow_SDL2_GL_ctor lacking_driver_env False []))
     = [LOG Critical Frontend ''Unsupported GL extension: {}'' [''ARB_multi_bind''],
        LOG Critical Frontend ''Unsupported GL extension: {}'' [''ARB_depth_buffer_float''],
        LOG Critical Frontend
          ''GPU does not support all required OpenGL extensions! Exiting...'' []]"
    by (simp add: ctor_unfold lacking_driver_env_fields missing_two_missing example_no_critical
        unsupported_diagnostic_def is_critical_def)
  have late: "fst (EmuWindow_SDL2_GL_ctor no_primary_context_env False []) = Inl (Exit 1)
   \<and> context_hosts (snd (EmuWindow_SDL2_GL_ctor no_primary_context_env False []))
     = [Some (SDL_Window 11), Some (SDL_Window 14)]"
    by (simp add: ctor_unfold no_primary_context_env_fields len fatal_report_def
        context_hosts_append hosts)
  from lacking late show ?thesis by simp
qed

text \<open>
  When the shared context cannot be created, the constructor does not notice: the pointer
  that \<open>CreateSharedContext\<close> returns is never empty, so the test on it never fires, and
  the object is returned with a shared context whose \<open>gl_context\<close> is \<^verbatim>\<open>nullptr\<close>.
\<close>

lemma ctor_shared_context_failure_unnoticed:
  "EmuWindow_SDL2_GL_ctor no_shared_context_env False []
     = (Inr (example_window\<lparr>core_context :=
               Some \<lparr>window = Some (SDL_Window 14), gl_context = None, is_current = False\<rparr>\<rparr>),
        upto_loader no_shared_context_env False []
        @ [OnResize, OnMinimalClientAreaChangeRequest, SDL_PumpEvents,
           LOG Info Frontend ''yuzu Version: {} | {}-{}'' [''1.0'', ''master'', ''abcd123''],
           LogSettings])
   \<and> filter is_critical (snd (EmuWindow_SDL2_GL_ctor no_shared_context_env False [])) = []"
proof -
  have strings: "g_build_fullname no_shared_context_env = ''1.0''"
    "g_scm_branch no_shared_context_env = ''master''"
    "g_scm_desc no_shared_context_env = ''abcd123''"
    by (simp_all add: no_shared_context_env_def example_env_def)
  have object: "constructed no_shared_context_env False []
     = example_window\<lparr>core_context :=
         Some \<lparr>window = Some (SDL_Window 14), gl_context = None, is_current = False\<rparr>\<rparr>"
    by (simp add: constructed_def example_window_def no_shared_context_env_fields
        example_lengths [OF no_shared_context_env_fields(1)])
  show ?thesis
    by (simp add: ctor_unfold no_shared_context_env_fields missing_all_extensions object strings
        example_lengths [OF no_shared_context_env_fields(1)] example_no_critical is_critical_def)
qed


subsection \<open>The shared context\<close>

lemma gl_attribute_append:
  "gl_attribute (xs @ ys) a
     = (case gl_attribute ys a of Some v \<Rightarrow> Some v | None \<Rightarrow> gl_attribute xs a)"
  by (induction xs) (simp_all split: option.splits)

lemma share_after_attributes:
  "gl_attribute (tr @ gl_attribute_calls env) SDL_GL_SHARE_WITH_CURRENT_CONTEXT = Some 1"
  by (simp add: gl_attribute_append gl_attribute_calls_def)

lemma share_kept:
  assumes "gl_attribute tr SDL_GL_SHARE_WITH_CURRENT_CONTEXT = Some 1"
    and "gl_attribute new SDL_GL_SHARE_WITH_CURRENT_CONTEXT = None"
  shows "gl_attribute (tr @ new) SDL_GL_SHARE_WITH_CURRENT_CONTEXT = Some 1"
  using assms by (simp add: gl_attribute_append)

lemma share_at_shared_window:
  "gl_attribute (upto_shared_window env fullscreen tr) SDL_GL_SHARE_WITH_CURRENT_CONTEXT = Some 1"
proof -
  have split: "upto_shared_window env fullscreen tr
      = (tr @ gl_attribute_calls env)
        @ ([render_window_call env, hidden_window_call] @ (if fullscreen then [Fullscreen] else [])
           @ [SDL_GL_CreateContext (SDL_CreateWindow_returns env (upto_render_window env tr)),
              hidden_window_call])"
    by (simp add: upto_shared_window_def upto_window_context_def upto_dummy_window_def
        upto_render_window_def)
  show ?thesis
    unfolding split
    by (rule share_kept [OF share_after_attributes])
      (simp add: render_window_call_def hidden_window_call_def)
qed

lemma share_after_ctor:
  assumes "fst (EmuWindow_SDL2_GL_ctor env fullscreen tr) = Inr e"
  shows "gl_attribute (snd (EmuWindow_SDL2_GL_ctor env fullscreen tr))
           SDL_GL_SHARE_WITH_CURRENT_CONTEXT = Some 1"
proof -
  from assms have trace: "snd (EmuWindow_SDL2_GL_ctor env fullscreen tr)
      = upto_shared_window env fullscreen tr
        @ [SDL_GL_CreateContext (SDL_CreateWindow_returns env (upto_shared_window env fullscreen tr)),
           gladLoadGLLoader, OnResize, OnMinimalClientAreaChangeRequest, SDL_PumpEvents,
           LOG Info Frontend ''yuzu Version: {} | {}-{}''
             [g_build_fullname env, g_scm_branch env, g_scm_desc env],
           LogSettings]"
    by (simp add: ctor_unfold upto_loader_def upto_core_context_def split: if_splits)
  show ?thesis
    unfolding trace by (rule share_kept [OF share_at_shared_window]) simp
qed

text \<open>
  Claim C4, as amended. \<open>CreateSharedContext\<close> always returns a context object; the
  context is created on a hidden window (zero size, flags hidden and OpenGL) that the call
  itself creates just before, one window per context, and that window is what the object
  keeps in \<open>window\<close>. It is not the \<open>dummy_window\<close> of the emulator window, which the
  function does not read, and it is not the visible window, as long as the window system
  gives the new window an address of its own. The call does not change the attributes: the
  sharing attribute, which the constructor sets to 1 before it creates any context, is 1 when
  the constructor creates its shared context and still 1 when the constructor returns.
\<close>

theorem CreateSharedContext_own_hidden_window:
  "CreateSharedContext env this tr
     = (Some \<lparr>window = SDL_CreateWindow_returns env (tr @ [hidden_window_call]),
               gl_context = SDL_GL_CreateContext_returns env
                 (tr @ [hidden_window_call,
                        SDL_GL_CreateContext (SDL_CreateWindow_returns env (tr @ [hidden_window_call]))]),
               is_current = False\<rparr>,
        tr @ [hidden_window_call,
              SDL_GL_CreateContext (SDL_CreateWindow_returns env (tr @ [hidden_window_call]))])
   \<and> hidden_window_call
     = SDL_CreateWindow None SDL_WINDOWPOS_UNDEFINED SDL_WINDOWPOS_UNDEFINED 0 0
         {SDL_WINDOW_HIDDEN, SDL_WINDOW_OPENGL}
   \<and> CreateSharedContext env this tr = CreateSharedContext env other tr
   \<and> (SDL_CreateWindow_returns env (tr @ [hidden_window_call]) \<noteq> render_window this \<longrightarrow>
        map_option window (fst (CreateSharedContext env this tr)) \<noteq> Some (render_window this))
   \<and> (gl_attribute tr SDL_GL_SHARE_WITH_CURRENT_CONTEXT = Some 1 \<longrightarrow>
        gl_attribute (tr @ [hidden_window_call]) SDL_GL_SHARE_WITH_CURRENT_CONTEXT = Some 1)
   \<and> gl_attribute (upto_shared_window env fullscreen tr0) SDL_GL_SHARE_WITH_CURRENT_CONTEXT
     = Some 1
   \<and> (fst (EmuWindow_SDL2_GL_ctor env fullscreen tr0) = Inr e \<longrightarrow>
        gl_attribute (snd (EmuWindow_SDL2_GL_ctor env fullscreen tr0))
          SDL_GL_SHARE_WITH_CURRENT_CONTEXT = Some 1)"
proof -
  have kept: "gl_attribute (tr @ [hidden_window_call]) SDL_GL_SHARE_WITH_CURRENT_CONTEXT = Some 1"
    if "gl_attribute tr SDL_GL_SHARE_WITH_CURRENT_CONTEXT = Some 1"
    by (rule share_kept [OF that]) (simp add: hidden_window_call_def)
  have same: "CreateSharedContext env this tr = CreateSharedContext env other tr"
    by (simp add: CreateSharedContext_def)
  show ?thesis
    using kept same share_at_shared_window [of env fullscreen tr0]
      share_after_ctor [of env fullscreen tr0 e]
    by (simp add: CreateSharedContext_eq hidden_window_call_def)
qed

theorem CreateSharedContext_own_hidden_window_witness:
  "fst (CreateSharedContext example_env example_window (upto_loader example_env False []))
     = Some \<lparr>window = Some (SDL_Window 17), gl_context = Some (GL_Context 18),
              is_current = False\<rparr>
   \<and> render_window example_window = Some (SDL_Window 11)
   \<and> gl_attribute (upto_loader example_env False []) SDL_GL_SHARE_WITH_CURRENT_CONTEXT = Some 1
   \<and> gl_attribute (upto_loader example_env False [] @ [hidden_window_call])
       SDL_GL_SHARE_WITH_CURRENT_CONTEXT = Some 1
   \<and> fst (EmuWindow_SDL2_GL_ctor example_env False []) = Inr example_window
   \<and> gl_attribute (snd (EmuWindow_SDL2_GL_ctor example_env False []))
       SDL_GL_SHARE_WITH_CURRENT_CONTEXT = Some 1"
proof -
  note len = example_lengths [OF example_env_fields(1)]
  note own = CreateSharedContext_own_hidden_window
    [of example_env example_window "upto_loader example_env False []" example_window
        False "[]" example_window]
  have built: "fst (EmuWindow_SDL2_GL_ctor example_env False []) = Inr example_window"
    by (simp add: ctor_unfold example_env_fields missing_all_extensions constructed_example)
  have share: "gl_attribute (upto_loader example_env False []) SDL_GL_SHARE_WITH_CURRENT_CONTEXT
      = Some 1"
    unfolding upto_loader_def upto_core_context_def append_assoc
    by (rule share_kept [OF share_at_shared_window]) simp
  have fresh: "SDL_CreateWindow_returns example_env (upto_loader example_env False [] @ [hidden_window_call])
      \<noteq> render_window example_window"
    by (simp add: example_env_fields len example_window_def)
  have made: "fst (CreateSharedContext example_env example_window (upto_loader example_env False []))
     = Some \<lparr>window = Some (SDL_Window 17), gl_context = Some (GL_Context 18),
              is_current = False\<rparr>"
    using own by (simp add: example_env_fields len)
  have visible: "render_window example_window = Some (SDL_Window 11)"
    by (simp add: example_window_def)
  from own built share fresh made visible show ?thesis
    by blast
qed

text \<open>
  The claim as written fails: the shared context that the constructor stores, and one created
  by a later call, sit on windows other than \<open>dummy_window\<close>.
\<close>

theorem shared_context_not_on_dummy_window:
  "fst (EmuWindow_SDL2_GL_ctor example_env False []) = Inr example_window
   \<and> dummy_window example_window = Some (SDL_Window 12)
   \<and> map_option window (core_context example_window) = Some (Some (SDL_Window 14))
   \<and> map_option window (core_context example_window) \<noteq> Some (dummy_window example_window)
   \<and> map_option window
       (fst (CreateSharedContext example_env example_window
               (snd (EmuWindow_SDL2_GL_ctor example_env False []))))
     = Some (Some (SDL_Window 22))
   \<and> map_option window
       (fst (CreateSharedContext example_env example_window
               (snd (EmuWindow_SDL2_GL_ctor example_env False []))))
     \<noteq> Some (dummy_window example_window)"
proof -
  note len = example_lengths [OF example_env_fields(1)]
  have run: "EmuWindow_SDL2_GL_ctor example_env False []
     = (Inr example_window,
        upto_loader example_env False []
        @ [OnResize, OnMinimalClientAreaChangeRequest, SDL_PumpEvents,
           LOG Info Frontend ''yuzu Version: {} | {}-{}''
             [g_build_fullname example_env, g_scm_branch example_env, g_scm_desc example_env],
           LogSettings])"
    by (simp add: ctor_unfold example_env_fields missing_all_extensions constructed_example)
  show ?thesis
    unfolding run
    by (simp add: CreateSharedContext_eq example_env_fields len example_window_def)
qed

section \<open>Properties of the destructor\<close>

lemma SDLGLContext_dtor_eq:
  "SDLGLContext_dtor env (c, tr)
     = tr @ (if is_current c then [SDL_GL_MakeCurrent (window c) None] else [])
       @ [SDL_GL_DeleteContext (gl_context c), SDL_DestroyWindow (window c)]"
  by (simp add: SDLGLContext_dtor_def DoneCurrent_def Let_def)

lemma dtor_eq:
  "EmuWindow_SDL2_GL_dtor env (this, tr)
     = (this\<lparr>core_context := None\<rparr>,
        (case core_context this of None \<Rightarrow> tr | Some c \<Rightarrow> SDLGLContext_dtor env (c, tr))
        @ [SDL_GL_DeleteContext (window_context this)])"
  by (simp add: EmuWindow_SDL2_GL_dtor_def Let_def)

text \<open>
  Claim C6. The destructor of \<open>EmuWindow_SDL2_GL\<close> first empties \<open>core_context\<close>, which
  runs the whole destructor of the shared context if there is one (release of the binding if
  current, deletion of its GL context, destruction of its window), and deletes the primary
  context after that, as its last call.
\<close>

theorem dtor_releases_shared_context_first:
  "EmuWindow_SDL2_GL_dtor env (this, tr)
     = (this\<lparr>core_context := None\<rparr>,
        (case core_context this of None \<Rightarrow> tr | Some c \<Rightarrow> SDLGLContext_dtor env (c, tr))
        @ [SDL_GL_DeleteContext (window_context this)])
   \<and> EmuWindow_SDL2_GL_dtor env (this\<lparr>core_context := Some c\<rparr>, tr)
     = (this\<lparr>core_context := None\<rparr>,
        tr @ (if is_current c then [SDL_GL_MakeCurrent (window c) None] else [])
        @ [SDL_GL_DeleteContext (gl_context c), SDL_DestroyWindow (window c)]
        @ [SDL_GL_DeleteContext (window_context this)])
   \<and> EmuWindow_SDL2_GL_dtor env (this\<lparr>core_context := None\<rparr>, tr)
     = (this\<lparr>core_context := None\<rparr>, tr @ [SDL_GL_DeleteContext (window_context this)])"
  by (simp add: dtor_eq SDLGLContext_dtor_eq)

theorem dtor_releases_shared_context_first_witness:
  "EmuWindow_SDL2_GL_dtor example_env (example_window, [])
     = (example_window\<lparr>core_context := None\<rparr>,
        [SDL_GL_DeleteContext (Some (GL_Context 15)), SDL_DestroyWindow (Some (SDL_Window 14)),
         SDL_GL_DeleteContext (Some (GL_Context 13))])"
proof -
  have object: "example_window
      = example_window\<lparr>core_context :=
          Some \<lparr>window = Some (SDL_Window 14), gl_context = Some (GL_Context 15),
                 is_current = False\<rparr>\<rparr>"
    by (simp add: example_window_def)
  have primary: "window_context example_window = Some (GL_Context 13)"
    by (simp add: example_window_def)
  from dtor_releases_shared_context_first
    [of example_env example_window "[]"
        "\<lparr>window = Some (SDL_Window 14), gl_context = Some (GL_Context 15), is_current = False\<rparr>",
     THEN conjunct2, THEN conjunct1]
  show ?thesis
    unfolding object [symmetric] primary by simp
qed

section \<open>What the class does to the windows it holds\<close>

lemma context_hosts_diagnostics: "context_hosts (map unsupported_diagnostic ns) = []"
  by (induction ns) (simp_all add: unsupported_diagnostic_def)

lemma windows_destroyed_append:
  "windows_destroyed (xs @ ys) = windows_destroyed xs @ windows_destroyed ys"
  by (induction xs rule: windows_destroyed.induct) simp_all

lemma windows_destroyed_attributes: "windows_destroyed (gl_attribute_calls env) = []"
  by (simp add: gl_attribute_calls_def)

lemma windows_destroyed_diagnostics: "windows_destroyed (map unsupported_diagnostic ns) = []"
  by (induction ns) (simp_all add: unsupported_diagnostic_def)

subsection \<open>The destructor\<close>

lemma dtor_calls:
  "EmuWindow_SDL2_GL_dtor env (this, tr)
     = (this\<lparr>core_context := None\<rparr>,
        tr @ (case core_context this of
                None \<Rightarrow> []
              | Some c \<Rightarrow> (if is_current c then [SDL_GL_MakeCurrent (window c) None] else [])
                          @ [SDL_GL_DeleteContext (gl_context c), SDL_DestroyWindow (window c)])
           @ [SDL_GL_DeleteContext (window_context this)])"
  by (cases "core_context this") (simp_all add: dtor_eq SDLGLContext_dtor_eq)

lemma dtor_render_window:
  "render_window (fst (EmuWindow_SDL2_GL_dtor env (this, tr))) = render_window this"
  by (simp add: dtor_eq)

lemma dtor_dummy_window:
  "dummy_window (fst (EmuWindow_SDL2_GL_dtor env (this, tr))) = dummy_window this"
  by (simp add: dtor_eq)

lemma dtor_reads_no_window:
  "snd (EmuWindow_SDL2_GL_dtor env (this\<lparr>render_window := r, dummy_window := d\<rparr>, tr))
     = snd (EmuWindow_SDL2_GL_dtor env (this, tr))"
  by (simp add: dtor_eq)

lemma dtor_windows_destroyed:
  "windows_destroyed (snd (EmuWindow_SDL2_GL_dtor env (this, tr)))
     = windows_destroyed tr @ (case core_context this of None \<Rightarrow> [] | Some c \<Rightarrow> [window c])"
  by (cases "core_context this") (simp_all add: dtor_calls windows_destroyed_append)

lemma dtor_context_hosts:
  "context_hosts (snd (EmuWindow_SDL2_GL_dtor env (this, tr))) = context_hosts tr"
  by (cases "core_context this") (simp_all add: dtor_calls context_hosts_append)

subsection \<open>The constructor\<close>

lemma ctor_context_hosts:
  "\<exists>new. snd (EmuWindow_SDL2_GL_ctor env fullscreen tr) = tr @ new
     \<and> context_hosts new
         = (if SDL_CreateWindow_returns env (upto_render_window env tr) = None then []
            else [SDL_CreateWindow_returns env (upto_render_window env tr),
                  SDL_CreateWindow_returns env (upto_shared_window env fullscreen tr)])
     \<and> windows_destroyed new = []"
proof -
  let ?rw = "SDL_CreateWindow_returns env (upto_render_window env tr)"
  let ?sw = "SDL_CreateWindow_returns env (upto_shared_window env fullscreen tr)"
  let ?t = "snd (EmuWindow_SDL2_GL_ctor env fullscreen tr)"
  have r: "upto_render_window env tr = tr @ (gl_attribute_calls env @ [render_window_call env])"
    by (simp add: upto_render_window_def)
  have l: "upto_loader env fullscreen tr
      = tr @ (gl_attribute_calls env @ [render_window_call env, hidden_window_call]
       @ (if fullscreen then [Fullscreen] else [])
       @ [SDL_GL_CreateContext ?rw, hidden_window_call, SDL_GL_CreateContext ?sw,
          gladLoadGLLoader])"
    by (simp add: upto_loader_eq)
  have c: "upto_core_context env fullscreen tr
      = tr @ (gl_attribute_calls env @ [render_window_call env, hidden_window_call]
       @ (if fullscreen then [Fullscreen] else [])
       @ [SDL_GL_CreateContext ?rw, hidden_window_call, SDL_GL_CreateContext ?sw])"
    by (simp add: upto_core_context_def upto_shared_window_def upto_window_context_def
        upto_dummy_window_def upto_render_window_def)
  have "take (length tr) ?t = tr
     \<and> context_hosts (drop (length tr) ?t) = (if ?rw = None then [] else [?rw, ?sw])
     \<and> windows_destroyed (drop (length tr) ?t) = []"
    unfolding ctor_unfold fatal_report_def r l c
    by (simp add: context_hosts_append context_hosts_attributes context_hosts_diagnostics
        windows_destroyed_append windows_destroyed_attributes windows_destroyed_diagnostics
        render_window_call_def hidden_window_call_def)
  then have "?t = tr @ drop (length tr) ?t
     \<and> context_hosts (drop (length tr) ?t) = (if ?rw = None then [] else [?rw, ?sw])
     \<and> windows_destroyed (drop (length tr) ?t) = []"
    by (metis append_take_drop_id)
  then show ?thesis by blast
qed

text \<open>
  What the window system answers to the creation of \<open>dummy_window\<close> ends up in the
  \<open>dummy_window\<close> field and nowhere else: with another answer the constructor makes the
  same calls and has the same outcome.
\<close>

lemma ctor_dummy_answer:
  "EmuWindow_SDL2_GL_ctor
     (env\<lparr>SDL_CreateWindow_returns :=
             (SDL_CreateWindow_returns env)(upto_dummy_window env tr := d)\<rparr>) fullscreen tr
     = (map_sum id (\<lambda>e. e\<lparr>dummy_window := d\<rparr>) (fst (EmuWindow_SDL2_GL_ctor env fullscreen tr)),
        snd (EmuWindow_SDL2_GL_ctor env fullscreen tr))"
proof -
  let ?env = "env\<lparr>SDL_CreateWindow_returns :=
      (SDL_CreateWindow_returns env)(upto_dummy_window env tr := d)\<rparr>"
  have calls: "gl_attribute_calls (env\<lparr>SDL_CreateWindow_returns := f\<rparr>) = gl_attribute_calls env"
    "render_window_call (env\<lparr>SDL_CreateWindow_returns := f\<rparr>) = render_window_call env" for f
    by (simp_all add: gl_attribute_calls_def render_window_call_def window_title_def)
  have r: "upto_render_window (env\<lparr>SDL_CreateWindow_returns := f\<rparr>) tr
      = upto_render_window env tr" for f
    by (simp add: upto_render_window_def calls)
  have dm: "upto_dummy_window (env\<lparr>SDL_CreateWindow_returns := f\<rparr>) tr
      = upto_dummy_window env tr" for f
    by (simp add: upto_dummy_window_def r)
  have rw: "SDL_CreateWindow_returns ?env (upto_render_window env tr)
      = SDL_CreateWindow_returns env (upto_render_window env tr)"
    by (simp add: upto_dummy_window_def)
  have wc: "upto_window_context ?env fullscreen tr = upto_window_context env fullscreen tr"
    unfolding upto_window_context_def dm r rw ..
  have sh: "upto_shared_window ?env fullscreen tr = upto_shared_window env fullscreen tr"
    unfolding upto_shared_window_def wc ..
  have sw: "SDL_CreateWindow_returns ?env (upto_shared_window env fullscreen tr)
      = SDL_CreateWindow_returns env (upto_shared_window env fullscreen tr)"
    by (simp add: upto_shared_window_def upto_window_context_def)
  have cc: "upto_core_context ?env fullscreen tr = upto_core_context env fullscreen tr"
    unfolding upto_core_context_def sh sw ..
  have ld: "upto_loader ?env fullscreen tr = upto_loader env fullscreen tr"
    unfolding upto_loader_def cc ..
  have report: "fatal_report ?env m t = fatal_report env m t" for m t
    by (simp add: fatal_report_def)
  have answer: "SDL_CreateWindow_returns ?env (upto_dummy_window env tr) = d"
    by simp
  have others: "SDL_GL_CreateContext_returns ?env = SDL_GL_CreateContext_returns env"
    by simp
  have object: "constructed ?env fullscreen tr
      = (constructed env fullscreen tr)\<lparr>dummy_window := d\<rparr>"
    unfolding constructed_def r dm wc sh cc rw sw answer others by simp
  show ?thesis
    unfolding ctor_unfold [of ?env] ctor_unfold [of env] r dm wc sh cc ld rw sw report object
    by simp
qed

subsection \<open>CreateSharedContext, Present and SupportsRequiredGLExtensions\<close>

lemma CreateSharedContext_context_hosts:
  "context_hosts (snd (CreateSharedContext env this tr))
     = context_hosts tr @ [SDL_CreateWindow_returns env (tr @ [hidden_window_call])]"
  by (simp add: CreateSharedContext_eq context_hosts_append hidden_window_call_def)

lemma CreateSharedContext_windows_destroyed:
  "windows_destroyed (snd (CreateSharedContext env this tr)) = windows_destroyed tr"
  by (simp add: CreateSharedContext_eq windows_destroyed_append hidden_window_call_def)

lemma CreateSharedContext_reads_no_window:
  "CreateSharedContext env (this\<lparr>render_window := r, dummy_window := d\<rparr>) tr
     = CreateSharedContext env this tr"
  by (simp add: CreateSharedContext_def)

lemma Present_loop_within_keeps:
  "context_hosts (fst (Present_loop_within fuel env this k tr)) = context_hosts tr
   \<and> windows_destroyed (fst (Present_loop_within fuel env this k tr)) = windows_destroyed tr"
  by (induction fuel arbitrary: k tr)
    (simp_all add: context_hosts_append windows_destroyed_append)

lemma Present_within_context_hosts:
  "context_hosts (fst (Present_within fuel env this tr)) = context_hosts tr"
proof -
  let ?tr2 = "(tr @ [SDL_GL_MakeCurrent (render_window this) (window_context this)])
      @ [SDL_GL_SetSwapInterval (if use_vsync env then 1 else 0)]"
  obtain t left where loop: "Present_loop_within fuel env this 0 ?tr2 = (t, left)"
    by (cases "Present_loop_within fuel env this 0 ?tr2")
  with Present_loop_within_keeps [of fuel env this 0 ?tr2]
  have "context_hosts t = context_hosts tr"
    by (simp add: context_hosts_append)
  with loop show ?thesis
    by (cases left) (simp_all add: Present_within_def Let_def context_hosts_append)
qed

lemma Present_within_windows_destroyed:
  "windows_destroyed (fst (Present_within fuel env this tr)) = windows_destroyed tr"
proof -
  let ?tr2 = "(tr @ [SDL_GL_MakeCurrent (render_window this) (window_context this)])
      @ [SDL_GL_SetSwapInterval (if use_vsync env then 1 else 0)]"
  obtain t left where loop: "Present_loop_within fuel env this 0 ?tr2 = (t, left)"
    by (cases "Present_loop_within fuel env this 0 ?tr2")
  with Present_loop_within_keeps [of fuel env this 0 ?tr2]
  have "windows_destroyed t = windows_destroyed tr"
    by (simp add: windows_destroyed_append)
  with loop show ?thesis
    by (cases left) (simp_all add: Present_within_def Let_def windows_destroyed_append)
qed

lemma Present_loop_within_reads_no_dummy:
  "Present_loop_within fuel env (this\<lparr>dummy_window := d\<rparr>) k tr
     = Present_loop_within fuel env this k tr"
  by (induction fuel arbitrary: k tr) simp_all

lemma Present_within_reads_no_dummy:
  "Present_within fuel env (this\<lparr>dummy_window := d\<rparr>) tr = Present_within fuel env this tr"
  by (simp add: Present_within_def Present_loop_within_reads_no_dummy)

lemma Present_reads_no_dummy:
  "Present env (this\<lparr>dummy_window := d\<rparr>) tr = Present env this tr"
proof -
  have "Present env (this\<lparr>dummy_window := d\<rparr>) tr = Some t \<longleftrightarrow> Present env this tr = Some t"
    for t
    by (simp add: Present_returns_iff_within Present_within_reads_no_dummy)
  then show ?thesis
    by (cases "Present env this tr") (simp_all, (metis option.exhaust)?)
qed

lemma SupportsRequiredGLExtensions_context_hosts:
  "context_hosts (snd (SupportsRequiredGLExtensions g tr)) = context_hosts tr"
  by (simp add: SupportsRequiredGLExtensions_eq context_hosts_append context_hosts_diagnostics)

lemma SupportsRequiredGLExtensions_windows_destroyed:
  "windows_destroyed (snd (SupportsRequiredGLExtensions g tr)) = windows_destroyed tr"
  by (simp add: SupportsRequiredGLExtensions_eq windows_destroyed_append
      windows_destroyed_diagnostics)

text \<open>
  Claim C10. The destructor of \<open>EmuWindow_SDL2_GL\<close> makes exactly these calls: those of
  the shared context's destructor if there is a shared context (a release if it is current,
  the deletion of its GL context, the destruction of the window it owns), then the deletion
  of the primary context. It empties \<open>core_context\<close>, leaves the fields \<open>render_window\<close>
  and \<open>dummy_window\<close> as they are and does not read them: whatever they hold, the calls are
  the same. The only window it destroys is the one the shared context object holds, and it
  creates no context. As for the rest of the class: the constructor destroys no window and
  creates its contexts on the window that the visible window's creation returned and on the
  window that the shared context created for itself, in that order (none if the visible window
  could not be created); what the creation of \<open>dummy_window\<close> returned goes into the field
  and into no call. \<open>CreateSharedContext\<close> creates one context, on the window it has just
  created, destroys no window and reads neither field; \<open>Present\<close>, however long it runs,
  and \<open>SupportsRequiredGLExtensions\<close> create no context, destroy no window and do not read
  \<open>dummy_window\<close>.
\<close>

theorem dtor_leaves_windows:
  "EmuWindow_SDL2_GL_dtor env (this, tr)
     = (this\<lparr>core_context := None\<rparr>,
        tr @ (case core_context this of
                None \<Rightarrow> []
              | Some c \<Rightarrow> (if is_current c then [SDL_GL_MakeCurrent (window c) None] else [])
                          @ [SDL_GL_DeleteContext (gl_context c), SDL_DestroyWindow (window c)])
           @ [SDL_GL_DeleteContext (window_context this)])
   \<and> render_window (fst (EmuWindow_SDL2_GL_dtor env (this, tr))) = render_window this
   \<and> dummy_window (fst (EmuWindow_SDL2_GL_dtor env (this, tr))) = dummy_window this
   \<and> snd (EmuWindow_SDL2_GL_dtor env (this\<lparr>render_window := r, dummy_window := d\<rparr>, tr))
     = snd (EmuWindow_SDL2_GL_dtor env (this, tr))
   \<and> windows_destroyed (snd (EmuWindow_SDL2_GL_dtor env (this, tr)))
     = windows_destroyed tr @ (case core_context this of None \<Rightarrow> [] | Some c \<Rightarrow> [window c])
   \<and> context_hosts (snd (EmuWindow_SDL2_GL_dtor env (this, tr))) = context_hosts tr
   \<and> (\<exists>new. snd (EmuWindow_SDL2_GL_ctor env fullscreen tr) = tr @ new
         \<and> context_hosts new
             = (if SDL_CreateWindow_returns env (upto_render_window env tr) = None then []
                else [SDL_CreateWindow_returns env (upto_render_window env tr),
                      SDL_CreateWindow_returns env (upto_shared_window env fullscreen tr)])
         \<and> windows_destroyed new = [])
   \<and> EmuWindow_SDL2_GL_ctor
       (env\<lparr>SDL_CreateWindow_returns :=
               (SDL_CreateWindow_returns env)(upto_dummy_window env tr := d)\<rparr>) fullscreen tr
     = (map_sum id (\<lambda>e. e\<lparr>dummy_window := d\<rparr>) (fst (EmuWindow_SDL2_GL_ctor env fullscreen tr)),
        snd (EmuWindow_SDL2_GL_ctor env fullscreen tr))
   \<and> context_hosts (snd (CreateSharedContext env this tr))
     = context_hosts tr @ [SDL_CreateWindow_returns env (tr @ [hidden_window_call])]
   \<and> windows_destroyed (snd (CreateSharedContext env this tr)) = windows_destroyed tr
   \<and> CreateSharedContext env (this\<lparr>render_window := r, dummy_window := d\<rparr>) tr
     = CreateSharedContext env this tr
   \<and> context_hosts (fst (Present_within fuel env this tr)) = context_hosts tr
   \<and> windows_destroyed (fst (Present_within fuel env this tr)) = windows_destroyed tr
   \<and> Present_within fuel env (this\<lparr>dummy_window := d\<rparr>) tr = Present_within fuel env this tr
   \<and> Present env (this\<lparr>dummy_window := d\<rparr>) tr = Present env this tr
   \<and> context_hosts (snd (SupportsRequiredGLExtensions g tr)) = context_hosts tr
   \<and> windows_destroyed (snd (SupportsRequiredGLExtensions g tr)) = windows_destroyed tr"
  by (rule conjI dtor_calls dtor_render_window dtor_dummy_window dtor_reads_no_window
      dtor_windows_destroyed dtor_context_hosts ctor_context_hosts ctor_dummy_answer
      CreateSharedContext_context_hosts CreateSharedContext_windows_destroyed
      CreateSharedContext_reads_no_window Present_within_context_hosts
      Present_within_windows_destroyed Present_within_reads_no_dummy Present_reads_no_dummy
      SupportsRequiredGLExtensions_context_hosts SupportsRequiredGLExtensions_windows_destroyed)+

theorem dtor_leaves_windows_witness:
  "EmuWindow_SDL2_GL_dtor example_env (example_window, [])
     = (example_window\<lparr>core_context := None\<rparr>,
        [SDL_GL_DeleteContext (Some (GL_Context 15)), SDL_DestroyWindow (Some (SDL_Window 14)),
         SDL_GL_DeleteContext (Some (GL_Context 13))])
   \<and> dummy_window (fst (EmuWindow_SDL2_GL_dtor example_env (example_window, [])))
     = Some (SDL_Window 12)
   \<and> render_window (fst (EmuWindow_SDL2_GL_dtor example_env (example_window, [])))
     = Some (SDL_Window 11)
   \<and> windows_destroyed (snd (EmuWindow_SDL2_GL_dtor example_env (example_window, [])))
     = [Some (SDL_Window 14)]
   \<and> context_hosts (snd (EmuWindow_SDL2_GL_ctor example_env False []))
     = [Some (SDL_Window 11), Some (SDL_Window 14)]
   \<and> windows_destroyed (snd (EmuWindow_SDL2_GL_ctor example_env False [])) = []"
proof -
  note len = example_lengths [OF example_env_fields(1)]
  note leaves = dtor_leaves_windows [of example_env example_window "[]" _ _ False]
  have fields: "render_window example_window = Some (SDL_Window 11)"
    "dummy_window example_window = Some (SDL_Window 12)"
    "window_context example_window = Some (GL_Context 13)"
    "core_context example_window
       = Some \<lparr>window = Some (SDL_Window 14), gl_context = Some (GL_Context 15),
               is_current = False\<rparr>"
    by (simp_all add: example_window_def)
  have a: "EmuWindow_SDL2_GL_dtor example_env (example_window, [])
     = (example_window\<lparr>core_context := None\<rparr>,
        [SDL_GL_DeleteContext (Some (GL_Context 15)), SDL_DestroyWindow (Some (SDL_Window 14)),
         SDL_GL_DeleteContext (Some (GL_Context 13))])"
    unfolding leaves [THEN conjunct1] by (simp add: fields)
  have b: "dummy_window (fst (EmuWindow_SDL2_GL_dtor example_env (example_window, [])))
     = Some (SDL_Window 12)"
    unfolding leaves [THEN conjunct2, THEN conjunct2, THEN conjunct1] by (simp add: fields)
  have c: "render_window (fst (EmuWindow_SDL2_GL_dtor example_env (example_window, [])))
     = Some (SDL_Window 11)"
    unfolding leaves [THEN conjunct2, THEN conjunct1] by (simp add: fields)
  have d: "windows_destroyed (snd (EmuWindow_SDL2_GL_dtor example_env (example_window, [])))
     = [Some (SDL_Window 14)]"
    unfolding leaves [THEN conjunct2, THEN conjunct2, THEN conjunct2, THEN conjunct2,
        THEN conjunct1]
    by (simp add: fields)
  from leaves [THEN conjunct2, THEN conjunct2, THEN conjunct2, THEN conjunct2,
      THEN conjunct2, THEN conjunct2, THEN conjunct1]
  obtain new where new: "snd (EmuWindow_SDL2_GL_ctor example_env False []) = [] @ new"
    and hosts: "context_hosts new
             = (if SDL_CreateWindow_returns example_env (upto_render_window example_env []) = None
                then []
                else [SDL_CreateWindow_returns example_env (upto_render_window example_env []),
                      SDL_CreateWindow_returns example_env
                        (upto_shared_window example_env False [])])"
    and kept: "windows_destroyed new = []"
    by (elim exE conjE)
  from new have new': "new = snd (EmuWindow_SDL2_GL_ctor example_env False [])" by simp
  have e: "context_hosts (snd (EmuWindow_SDL2_GL_ctor example_env False []))
     = [Some (SDL_Window 11), Some (SDL_Window 14)]"
    using hosts unfolding new' by (simp add: example_env_fields len)
  have f: "windows_destroyed (snd (EmuWindow_SDL2_GL_ctor example_env False [])) = []"
    using kept unfolding new' .
  from a b c d e f show ?thesis by simp
qed

end
